theory Spec2Isabelle
  imports Main
begin

section \<open>Values, errors and strings\<close>

text \<open>
  Values as \<^verbatim>\<open>yaml.load\<close> produces them and as the schema dumps them: a dict is an
  association list in insertion order (keys are unique in Python; a lookup takes the
  first entry).
\<close>

datatype yval =
    YNone
  | YBool bool
  | YInt int
  | YStr string
  | YList "yval list"
  | YDict "(yval \<times> yval) list"

text \<open>
  The scalar Python values an environment variable may hold: the dataclass declares
  \<^verbatim>\<open>env_vars: Dict[str, Any]\<close>.
\<close>

datatype pyval = PNone | PBool bool | PInt int | PStr string

datatype error =
    ValueError
  | TypeError
  | IndexError
  | AttributeError
  | ValidationError
  | OSError
  | IsADirectoryError

definition bindE :: "error + 'a \<Rightarrow> ('a \<Rightarrow> error + 'b) \<Rightarrow> error + 'b" where
  "bindE r f = (case r of Inl e \<Rightarrow> Inl e | Inr a \<Rightarrow> f a)"

text \<open>
  \<^verbatim>\<open>d[k] = v\<close>: the value of an existing key is replaced in place, a new key goes to the
  end. A dict built by assigning items one after another has unique keys.
\<close>

fun dict_set :: "('k \<times> 'v) list \<Rightarrow> 'k \<Rightarrow> 'v \<Rightarrow> ('k \<times> 'v) list" where
  "dict_set [] k v = [(k, v)]"
| "dict_set ((k', v') # d) k v = (if k' = k then (k', v) # d else (k', v') # dict_set d k v)"

definition dict_of_items :: "('k \<times> 'v) list \<Rightarrow> ('k \<times> 'v) list" where
  "dict_of_items items = foldl (\<lambda>d (k, v). dict_set d k v) [] items"

text \<open>\<^verbatim>\<open>s.split(sep)\<close> for a one-character separator.\<close>

fun split_sep :: "char \<Rightarrow> string \<Rightarrow> string list" where
  "split_sep sep [] = [[]]"
| "split_sep sep (c # cs) =
     (if c = sep then [] # split_sep sep cs
      else (case split_sep sep cs of
              [] \<Rightarrow> [[c]]
            | w # ws \<Rightarrow> (c # w) # ws))"

text \<open>\<^verbatim>\<open>"/".join(parts)\<close>.\<close>

fun join_sep :: "char \<Rightarrow> string list \<Rightarrow> string" where
  "join_sep sep [] = []"
| "join_sep sep [w] = w"
| "join_sep sep (w # v # ws) = w @ sep # join_sep sep (v # ws)"

text \<open>\<^verbatim>\<open>s.rstrip("/")\<close>.\<close>

definition rstrip_sep :: "string \<Rightarrow> string" where
  "rstrip_sep s = rev (dropWhile (\<lambda>c. c = CHR ''/'') (rev s))"

text \<open>\<^verbatim>\<open>str(n)\<close> for a Python int.\<close>

fun digits_of :: "nat \<Rightarrow> string" where
  "digits_of n =
     (if n < 10 then [char_of (48 + n)]
      else digits_of (n div 10) @ [char_of (48 + n mod 10)])"

definition str_int :: "int \<Rightarrow> string" where
  "str_int i = (if i < 0 then CHR ''-'' # digits_of (nat (- i)) else digits_of (nat i))"

text \<open>\<^verbatim>\<open>str(v)\<close> on the scalar values.\<close>

fun py_str :: "pyval \<Rightarrow> string" where
  "py_str PNone = ''None''"
| "py_str (PBool b) = (if b then ''True'' else ''False'')"
| "py_str (PInt i) = str_int i"
| "py_str (PStr s) = s"

section \<open>pathlib.PurePosixPath\<close>

text \<open>
  A pure POSIX path as pathlib holds it: the root (\<^verbatim>\<open>""\<close>, \<^verbatim>\<open>"/"\<close> or \<^verbatim>\<open>"//"\<close>) and the
  components after it. Parsing drops empty components and \<^verbatim>\<open>"."\<close>; exactly two
  leading slashes are kept as the root \<^verbatim>\<open>"//"\<close>.
\<close>

datatype path = Path (root: string) (names: "string list")

definition splitroot :: "string \<Rightarrow> string" where
  "splitroot s =
     (if s \<noteq> [] \<and> hd s = CHR ''/'' then
        (if length s - length (dropWhile (\<lambda>c. c = CHR ''/'') s) = 2 then ''//'' else ''/'')
      else '''')"

definition parse_path :: "string \<Rightarrow> path" where
  "parse_path s =
     Path (splitroot s) (filter (\<lambda>x. x \<noteq> [] \<and> x \<noteq> ''.'') (split_sep CHR ''/'' s))"

text \<open>\<^verbatim>\<open>str(p)\<close>.\<close>

definition str_path :: "path \<Rightarrow> string" where
  "str_path p =
     (if root p \<noteq> [] then root p @ join_sep CHR ''/'' (names p)
      else if names p = [] then ''.''
      else join_sep CHR ''/'' (names p))"

text \<open>\<^verbatim>\<open>p / q\<close>: an anchored right operand replaces the left one.\<close>

definition joinpath :: "path \<Rightarrow> path \<Rightarrow> path" where
  "joinpath p q = (if root q \<noteq> [] then q else Path (root p) (names p @ names q))"

text \<open>\<^verbatim>\<open>p.parent\<close>.\<close>

definition parent :: "path \<Rightarrow> path" where
  "parent p = Path (root p) (butlast (names p))"

text \<open>\<^verbatim>\<open>p.relative_to(base)\<close>: ValueError unless \<^verbatim>\<open>base\<close> is a prefix of \<^verbatim>\<open>p\<close>.\<close>

definition relative_to :: "path \<Rightarrow> path \<Rightarrow> error + path" where
  "relative_to p base =
     (if root p = root base \<and> take (length (names base)) (names p) = names base
      then Inr (Path [] (drop (length (names base)) (names p)))
      else Inl ValueError)"

text \<open>The values pathlib can hold: what parsing a string can produce.\<close>

definition wf_name :: "string \<Rightarrow> bool" where
  "wf_name x = (x \<noteq> [] \<and> x \<noteq> ''.'' \<and> CHR ''/'' \<notin> set x)"

definition wf_path :: "path \<Rightarrow> bool" where
  "wf_path p = ((root p = [] \<or> root p = ''/'' \<or> root p = ''//'') \<and> list_all wf_name (names p))"

section \<open>The operating system\<close>

text \<open>
  What the program sees of its host. A path string names at most one node; symbolic
  links show only through \<^verbatim>\<open>os.path.realpath\<close>, which is taken from the host together
  with \<^verbatim>\<open>os.path.abspath\<close>, the home directories \<^verbatim>\<open>os.path.expanduser\<close> consults (the
  empty name is the current user), the paths that cannot be opened for writing or
  renamed, the text \<^verbatim>\<open>yaml.dump\<close> produces and the value \<^verbatim>\<open>yaml.load\<close> reads from a text
  (or the error it raises). Read permissions are not modelled: a regular file that
  exists can be read.
\<close>

datatype node = File string | Dir

record world =
  files :: "(string \<times> node) list"
  realpath :: "string \<Rightarrow> string"
  abspath :: "string \<Rightarrow> string"
  userhome :: "string \<Rightarrow> string option"
  write_denied :: "string \<Rightarrow> bool"
  rename_denied :: "string \<Rightarrow> bool"
  yaml_dump :: "yval \<Rightarrow> string"
  yaml_load :: "string \<Rightarrow> error + yval"

definition os_path_exists :: "world \<Rightarrow> string \<Rightarrow> bool" where
  "os_path_exists w p = (map_of (files w) p \<noteq> None)"

definition os_path_isabs :: "string \<Rightarrow> bool" where
  "os_path_isabs s = (s \<noteq> [] \<and> hd s = CHR ''/'')"

definition os_path_join :: "string \<Rightarrow> string \<Rightarrow> string" where
  "os_path_join a b =
     (if os_path_isabs b then b
      else if a = [] \<or> last a = CHR ''/'' then a @ b
      else a @ CHR ''/'' # b)"

text \<open>
  \<^verbatim>\<open>os.path.expanduser\<close>: a path that does not start with \<^verbatim>\<open>~\<close>, or names a user the host
  does not know, is returned unchanged.
\<close>

definition expanduser :: "world \<Rightarrow> string \<Rightarrow> string" where
  "expanduser w p =
     (if p = [] \<or> hd p \<noteq> CHR ''~'' then p
      else (case userhome w (takeWhile (\<lambda>c. c \<noteq> CHR ''/'') (tl p)) of
              None \<Rightarrow> p
            | Some h \<Rightarrow>
                (let r = rstrip_sep h @ dropWhile (\<lambda>c. c \<noteq> CHR ''/'') (tl p)
                 in if r = [] then ''/'' else r)))"

definition auto_realpath :: "world \<Rightarrow> string \<Rightarrow> string option \<Rightarrow> bool \<Rightarrow> string" where
  "auto_realpath w p base_dir force_abs_path =
     (if os_path_isabs p \<and> os_path_exists w p then realpath w p
      else (let abs_path = (case base_dir of None \<Rightarrow> p | Some b \<Rightarrow> os_path_join b p)
            in if os_path_exists w abs_path then realpath w abs_path
               else if force_abs_path then abs_path
               else p))"

section \<open>The configuration model\<close>

record VaultId =
  label :: string
  source :: string

text \<open>The \<^verbatim>\<open>source\<close> argument of the constructor: absent, a string or a path.\<close>

datatype source_arg = SrcNone | SrcStr string | SrcPath path

fun source_truthy :: "source_arg \<Rightarrow> bool" where
  "source_truthy SrcNone = False"
| "source_truthy (SrcStr s) = (s \<noteq> [])"
| "source_truthy (SrcPath p) = True"

fun source_str :: "source_arg \<Rightarrow> string" where
  "source_str SrcNone = ''None''"
| "source_str (SrcStr s) = s"
| "source_str (SrcPath p) = str_path p"

definition VaultId_finish ::
  "world \<Rightarrow> string option \<Rightarrow> string \<Rightarrow> source_arg \<Rightarrow> bool \<Rightarrow> VaultId" where
  "VaultId_finish w base_dir l src apply_realpath =
     \<lparr>label = l,
      source = (if source_truthy src \<and> src \<noteq> SrcStr ''prompt'' \<and> apply_realpath
                then auto_realpath w (source_str src) base_dir True
                else source_str src)\<rparr>"

definition VaultId_init ::
  "world \<Rightarrow> string option \<Rightarrow> string option \<Rightarrow> string option \<Rightarrow> source_arg \<Rightarrow> bool
     \<Rightarrow> error + VaultId" where
  "VaultId_init w vault_id base_dir l src apply_realpath =
     (case vault_id of
        Some v \<Rightarrow>
          (if l \<noteq> None \<or> src \<noteq> SrcNone then Inl ValueError
           else if CHR ''@'' \<in> set v then
             Inr (VaultId_finish w base_dir (takeWhile (\<lambda>c. c \<noteq> CHR ''@'') v)
                    (SrcStr (tl (dropWhile (\<lambda>c. c \<noteq> CHR ''@'') v))) apply_realpath)
           else Inr (VaultId_finish w base_dir v (SrcStr []) apply_realpath))
      | None \<Rightarrow>
          (case l of
             None \<Rightarrow> Inl ValueError
           | Some l' \<Rightarrow> Inr (VaultId_finish w base_dir l' src apply_realpath)))"

text \<open>\<^verbatim>\<open>VaultId(s)\<close>, which cannot raise.\<close>

definition VaultId_of_str :: "world \<Rightarrow> string \<Rightarrow> VaultId" where
  "VaultId_of_str w v =
     (if CHR ''@'' \<in> set v then
        VaultId_finish w None (takeWhile (\<lambda>c. c \<noteq> CHR ''@'') v)
          (SrcStr (tl (dropWhile (\<lambda>c. c \<noteq> CHR ''@'') v))) True
      else VaultId_finish w None v (SrcStr []) True)"

definition VaultId_copy :: "world \<Rightarrow> VaultId \<Rightarrow> VaultId" where
  "VaultId_copy w v = VaultId_finish w None (label v) (SrcStr (source v)) True"

definition VaultId_id :: "VaultId \<Rightarrow> string" where
  "VaultId_id v = label v @ CHR ''@'' # source v"

definition source_is_path :: "VaultId \<Rightarrow> bool" where
  "source_is_path v = (source v \<noteq> [] \<and> source v \<noteq> ''prompt'')"

definition source_path :: "VaultId \<Rightarrow> path option" where
  "source_path v = (if source_is_path v then Some (parse_path (source v)) else None)"

definition VaultId_relative_to :: "world \<Rightarrow> VaultId \<Rightarrow> path \<Rightarrow> error + VaultId" where
  "VaultId_relative_to w v base_dir =
     (case source_path v of
        Some sp \<Rightarrow>
          (case relative_to sp base_dir of
             Inl e \<Rightarrow> Inl e
           | Inr rel \<Rightarrow> Inr (VaultId_finish w None (label v) (SrcPath rel) False))
      | None \<Rightarrow> Inr (VaultId_copy w v))"

record ConfigContext =
  config_file :: path
  create_model :: bool
  serialize_relative_paths :: bool

definition config_dir :: "ConfigContext \<Rightarrow> path" where
  "config_dir ctx = parent (ConfigContext.config_file ctx)"

record AnsibleConfig =
  config_file :: "path option"
  inventories :: "path list"
  vault_ids :: "VaultId list"
  vault_password_files :: "path list"
  user_scripts :: "path list"
  vars_files :: "path list"
  vault_files :: "path list"
  private_key_file :: "path option"
  user :: "string option"
  vault_encrypt_identity :: "string option"
  log_path :: "path option"
  env_vars :: "(string \<times> pyval) list"

record MainConfig =
  ansible :: AnsibleConfig
  config_context :: "ConfigContext option"

text \<open>The dataclass defaults: \<^verbatim>\<open>AnsibleConfig()\<close> and \<^verbatim>\<open>MainConfig()\<close>.\<close>

definition AnsibleConfig_default :: AnsibleConfig where
  "AnsibleConfig_default =
     \<lparr>config_file = None, inventories = [], vault_ids = [], vault_password_files = [],
      user_scripts = [], vars_files = [], vault_files = [], private_key_file = None,
      user = None, vault_encrypt_identity = None, log_path = None, env_vars = []\<rparr>"

definition MainConfig_default :: MainConfig where
  "MainConfig_default = \<lparr>ansible = AnsibleConfig_default, config_context = None\<rparr>"

section \<open>Merging\<close>

definition REPLACE_VARS_MERGE_ACTION :: string where
  "REPLACE_VARS_MERGE_ACTION = ''$replace_vars''"

record AttrMerger =
  merge_options :: "(string \<times> yval) list"
  replace_vars :: "string set"
  cur_attr_name :: string
  attr_name_stack :: "string list"

fun unhashable :: "yval \<Rightarrow> bool" where
  "unhashable (YList xs) = True"
| "unhashable (YDict kvs) = True"
| "unhashable v = False"

fun str_items :: "yval list \<Rightarrow> string list" where
  "str_items [] = []"
| "str_items (YStr s # vs) = s # str_items vs"
| "str_items (v # vs) = str_items vs"

text \<open>
  \<^verbatim>\<open>set(v)\<close>, as far as its string members go (the set is only asked whether it holds an
  attribute name): TypeError for a value that is not iterable or has an unhashable
  member.
\<close>

fun py_set :: "yval \<Rightarrow> error + string set" where
  "py_set (YList xs) = (if list_ex unhashable xs then Inl TypeError else Inr (set (str_items xs)))"
| "py_set (YStr s) = Inr (set (map (\<lambda>c. [c]) s))"
| "py_set (YDict kvs) = Inr (set (str_items (map fst kvs)))"
| "py_set v = Inl TypeError"

definition AttrMerger_init :: "(string \<times> yval) list \<Rightarrow> error + AttrMerger" where
  "AttrMerger_init opts =
     bindE (case map_of opts REPLACE_VARS_MERGE_ACTION of
              None \<Rightarrow> Inr {}
            | Some v \<Rightarrow> py_set v)
       (\<lambda>rv. Inr \<lparr>merge_options = opts, replace_vars = rv, cur_attr_name = [],
                  attr_name_stack = []\<rparr>)"

definition begin_attr :: "AttrMerger \<Rightarrow> string \<Rightarrow> AttrMerger" where
  "begin_attr am name =
     am\<lparr>attr_name_stack := attr_name_stack am @ [cur_attr_name am],
        cur_attr_name := (if cur_attr_name am \<noteq> [] then cur_attr_name am @ ''.'' @ name
                          else name)\<rparr>"

definition end_attr :: "AttrMerger \<Rightarrow> error + AttrMerger" where
  "end_attr am =
     (if attr_name_stack am = [] then Inl IndexError
      else Inr (am\<lparr>cur_attr_name := last (attr_name_stack am),
                   attr_name_stack := butlast (attr_name_stack am)\<rparr>))"

text \<open>
  The two ways \<^verbatim>\<open>merge_attr\<close> combines values that are not replaced: both sequences
  (the list fields), or not (the \<^verbatim>\<open>env_vars\<close> dict).
\<close>

definition merge_sequences :: "'a list \<Rightarrow> 'a list \<Rightarrow> 'a list" where
  "merge_sequences this_value that_value =
     this_value @ filter (\<lambda>item. item \<notin> set this_value) that_value"

definition merge_other :: "'a \<Rightarrow> 'a \<Rightarrow> 'a" where
  "merge_other this_value that_value = that_value"

text \<open>
  \<^verbatim>\<open>merge_attr\<close>, with \<^verbatim>\<open>getattr\<close> and \<^verbatim>\<open>setattr\<close> of the named attribute passed in, and
  the combination its type selects.
\<close>

definition merge_attr ::
  "AttrMerger \<Rightarrow> 'c \<Rightarrow> 'c \<Rightarrow> string \<Rightarrow> ('c \<Rightarrow> 'v) \<Rightarrow> ('v \<Rightarrow> 'c \<Rightarrow> 'c) \<Rightarrow> ('v \<Rightarrow> 'v \<Rightarrow> 'v)
     \<Rightarrow> error + ('c \<times> AttrMerger)" where
  "merge_attr am this_obj that_obj attr_name getattr setattr combine =
     (let am1 = begin_attr am attr_name;
          do_replace_attr = (cur_attr_name am1 \<in> replace_vars am1);
          this1 = (if do_replace_attr then setattr (getattr that_obj) this_obj
                   else setattr (combine (getattr this_obj) (getattr that_obj)) this_obj)
      in bindE (end_attr am1) (\<lambda>am2. Inr (this1, am2)))"

definition AnsibleConfig_merge ::
  "AnsibleConfig \<Rightarrow> AnsibleConfig \<Rightarrow> AttrMerger \<Rightarrow> error + (AnsibleConfig \<times> AttrMerger)" where
  "AnsibleConfig_merge self other am =
     bindE (merge_attr am (self\<lparr>config_file := config_file other\<rparr>) other ''inventories''
              inventories (\<lambda>v c. c\<lparr>inventories := v\<rparr>) merge_sequences)
     (\<lambda>(s1, am1).
     bindE (merge_attr am1 s1 other ''vault_ids''
              vault_ids (\<lambda>v c. c\<lparr>vault_ids := v\<rparr>) merge_sequences)
     (\<lambda>(s2, am2).
     bindE (merge_attr am2 s2 other ''vault_password_files''
              vault_password_files (\<lambda>v c. c\<lparr>vault_password_files := v\<rparr>) merge_sequences)
     (\<lambda>(s3, am3).
     bindE (merge_attr am3 s3 other ''user_scripts''
              user_scripts (\<lambda>v c. c\<lparr>user_scripts := v\<rparr>) merge_sequences)
     (\<lambda>(s4, am4).
     bindE (merge_attr am4 s4 other ''vars_files''
              vars_files (\<lambda>v c. c\<lparr>vars_files := v\<rparr>) merge_sequences)
     (\<lambda>(s5, am5).
     bindE (merge_attr am5 s5 other ''vault_files''
              vault_files (\<lambda>v c. c\<lparr>vault_files := v\<rparr>) merge_sequences)
     (\<lambda>(s6, am6).
     bindE (merge_attr am6 s6 other ''env_vars''
              env_vars (\<lambda>v c. c\<lparr>env_vars := v\<rparr>) merge_other)
     (\<lambda>(s7, am7).
        Inr (s7\<lparr>private_key_file := private_key_file other,
                user := user other,
                vault_encrypt_identity := vault_encrypt_identity other,
                log_path := log_path other\<rparr>, am7))))))))"

definition MainConfig_merge ::
  "MainConfig \<Rightarrow> MainConfig \<Rightarrow> AttrMerger \<Rightarrow> error + (MainConfig \<times> AttrMerger)" where
  "MainConfig_merge self other am =
     bindE (AnsibleConfig_merge (ansible self) (ansible other) (begin_attr am ''ansible''))
     (\<lambda>(a, am1).
     bindE (end_attr am1)
     (\<lambda>am2. Inr (\<lparr>ansible = a, config_context = config_context other\<rparr>, am2)))"

section \<open>The schema: dumping\<close>

text \<open>
  \<^verbatim>\<open>fields.String._serialize\<close>: None stays None, anything else goes through \<^verbatim>\<open>str\<close>.
\<close>

definition String_serialize :: "string option \<Rightarrow> yval" where
  "String_serialize value = (case value of None \<Rightarrow> YNone | Some s \<Rightarrow> YStr s)"

fun String_serialize_any :: "pyval \<Rightarrow> yval" where
  "String_serialize_any PNone = YNone"
| "String_serialize_any v = YStr (py_str v)"

definition PathField_serialize :: "ConfigContext \<Rightarrow> path option \<Rightarrow> yval" where
  "PathField_serialize ctx value =
     (case value of
        None \<Rightarrow> YNone
      | Some p \<Rightarrow>
          (if serialize_relative_paths ctx then
             (case relative_to p (config_dir ctx) of
                Inl e \<Rightarrow> YStr (str_path p)
              | Inr rel \<Rightarrow> YStr (str_path rel))
           else YStr (str_path p)))"

definition VaultIdField_serialize :: "world \<Rightarrow> ConfigContext \<Rightarrow> VaultId \<Rightarrow> yval" where
  "VaultIdField_serialize w ctx value =
     (if serialize_relative_paths ctx then
        (case VaultId_relative_to w value (config_dir ctx) of
           Inl e \<Rightarrow> YStr (VaultId_id value)
         | Inr rel \<Rightarrow> YStr (VaultId_id rel))
      else YStr (VaultId_id value))"

definition Dict_serialize :: "(string \<times> pyval) list \<Rightarrow> yval" where
  "Dict_serialize value =
     YDict (dict_of_items (map (\<lambda>(k, v). (YStr k, String_serialize_any v)) value))"

text \<open>The \<^verbatim>\<open>post_dump\<close> hook of \<^verbatim>\<open>BaseSchema\<close>.\<close>

definition remove_none_values :: "(yval \<times> yval) list \<Rightarrow> (yval \<times> yval) list" where
  "remove_none_values data = filter (\<lambda>(key, value). value \<noteq> YNone) data"

text \<open>The fields of \<^verbatim>\<open>AnsibleConfigSchema\<close> dumped in their declared order, before the hook.\<close>

definition AnsibleConfigSchema_fields ::
  "world \<Rightarrow> ConfigContext \<Rightarrow> AnsibleConfig \<Rightarrow> (yval \<times> yval) list" where
  "AnsibleConfigSchema_fields w ctx a =
     [(YStr ''config_file'', PathField_serialize ctx (config_file a)),
      (YStr ''inventories'', YList (map (\<lambda>p. PathField_serialize ctx (Some p)) (inventories a))),
      (YStr ''vault_ids'', YList (map (VaultIdField_serialize w ctx) (vault_ids a))),
      (YStr ''vault_password_files'',
         YList (map (\<lambda>p. PathField_serialize ctx (Some p)) (vault_password_files a))),
      (YStr ''user_scripts'', YList (map (\<lambda>p. PathField_serialize ctx (Some p)) (user_scripts a))),
      (YStr ''vars_files'', YList (map (\<lambda>p. PathField_serialize ctx (Some p)) (vars_files a))),
      (YStr ''vault_files'', YList (map (\<lambda>p. PathField_serialize ctx (Some p)) (vault_files a))),
      (YStr ''private_key_file'', PathField_serialize ctx (private_key_file a)),
      (YStr ''user'', String_serialize (user a)),
      (YStr ''vault_encrypt_identity'', String_serialize (vault_encrypt_identity a)),
      (YStr ''log_path'', PathField_serialize ctx (log_path a)),
      (YStr ''env_vars'', Dict_serialize (env_vars a))]"

definition AnsibleConfigSchema_dump ::
  "world \<Rightarrow> ConfigContext \<Rightarrow> AnsibleConfig \<Rightarrow> (yval \<times> yval) list" where
  "AnsibleConfigSchema_dump w ctx a = remove_none_values (AnsibleConfigSchema_fields w ctx a)"

definition MainConfigSchema_dump :: "world \<Rightarrow> ConfigContext \<Rightarrow> MainConfig \<Rightarrow> yval" where
  "MainConfigSchema_dump w ctx m =
     YDict (remove_none_values
       [(YStr ''ansible'', YDict (AnsibleConfigSchema_dump w ctx (ansible m)))])"

section \<open>The schema: loading\<close>

text \<open>
  \<^verbatim>\<open>Field.deserialize\<close>: None is accepted only with \<^verbatim>\<open>allow_none\<close>; every other value goes
  to the field's \<^verbatim>\<open>_deserialize\<close>. A validation error of any field fails the load.
\<close>

definition Field_deserialize ::
  "bool \<Rightarrow> (yval \<Rightarrow> error + 'a) \<Rightarrow> yval \<Rightarrow> error + 'a option" where
  "Field_deserialize allow_none deser value =
     (if value = YNone then (if allow_none then Inr None else Inl ValidationError)
      else bindE (deser value) (\<lambda>x. Inr (Some x)))"

definition Field_deserialize_required :: "(yval \<Rightarrow> error + 'a) \<Rightarrow> yval \<Rightarrow> error + 'a" where
  "Field_deserialize_required deser value =
     (if value = YNone then Inl ValidationError else deser value)"

fun String_deserialize :: "yval \<Rightarrow> error + string" where
  "String_deserialize (YStr s) = Inr s"
| "String_deserialize v = Inl ValidationError"

definition PathField_deserialize :: "world \<Rightarrow> ConfigContext \<Rightarrow> yval \<Rightarrow> error + path" where
  "PathField_deserialize w ctx value =
     bindE (String_deserialize value)
       (\<lambda>svalue. Inr (joinpath (config_dir ctx) (parse_path (expanduser w svalue))))"

definition VaultIdField_deserialize :: "world \<Rightarrow> ConfigContext \<Rightarrow> yval \<Rightarrow> error + VaultId" where
  "VaultIdField_deserialize w ctx value =
     bindE (String_deserialize value)
       (\<lambda>svalue.
          (let vault_id = VaultId_of_str w svalue in
           case source_path vault_id of
             Some sp \<Rightarrow>
               Inr (vault_id\<lparr>source :=
                      str_path (joinpath (config_dir ctx)
                                  (parse_path (expanduser w (str_path sp))))\<rparr>)
           | None \<Rightarrow> Inr vault_id))"

text \<open>Every element of a list, or every item of a dict, in turn.\<close>

fun traverse :: "('a \<Rightarrow> error + 'b) \<Rightarrow> 'a list \<Rightarrow> error + 'b list" where
  "traverse f [] = Inr []"
| "traverse f (x # xs) = bindE (f x) (\<lambda>y. bindE (traverse f xs) (\<lambda>ys. Inr (y # ys)))"

fun List_deserialize :: "(yval \<Rightarrow> error + 'a) \<Rightarrow> yval \<Rightarrow> error + 'a list" where
  "List_deserialize inner (YList xs) = traverse (Field_deserialize_required inner) xs"
| "List_deserialize inner v = Inl ValidationError"

fun Dict_deserialize :: "yval \<Rightarrow> error + (string \<times> pyval) list" where
  "Dict_deserialize (YDict kvs) =
     bindE (traverse (\<lambda>(k, v).
              bindE (Field_deserialize_required String_deserialize k) (\<lambda>k'.
              bindE (Field_deserialize_required String_deserialize v) (\<lambda>v'. Inr (k', PStr v')))) kvs)
       (\<lambda>items. Inr (dict_of_items items))"
| "Dict_deserialize v = Inl ValidationError"

text \<open>
  What the fields of a loaded mapping deserialize to, before \<^verbatim>\<open>make_object\<close>: a field the
  mapping does not name is absent.
\<close>

record AnsibleData =
  d_config_file :: "path option option"
  d_inventories :: "path list option"
  d_vault_ids :: "VaultId list option"
  d_vault_password_files :: "path list option"
  d_user_scripts :: "path list option"
  d_vars_files :: "path list option"
  d_vault_files :: "path list option"
  d_private_key_file :: "path option option"
  d_user :: "string option option"
  d_vault_encrypt_identity :: "string option option"
  d_log_path :: "path option option"
  d_env_vars :: "(string \<times> pyval) list option"

definition load_field ::
  "(yval \<times> yval) list \<Rightarrow> string \<Rightarrow> (yval \<Rightarrow> error + 'a) \<Rightarrow> error + 'a option" where
  "load_field data name deser =
     (case map_of data (YStr name) of
        None \<Rightarrow> Inr None
      | Some value \<Rightarrow> bindE (deser value) (\<lambda>x. Inr (Some x)))"

definition AnsibleConfigSchema_names :: "string list" where
  "AnsibleConfigSchema_names =
     [''config_file'', ''inventories'', ''vault_ids'', ''vault_password_files'',
      ''user_scripts'', ''vars_files'', ''vault_files'', ''private_key_file'', ''user'',
      ''vault_encrypt_identity'', ''log_path'', ''env_vars'']"

text \<open>A key the schema does not declare fails the load (\<^verbatim>\<open>unknown = RAISE\<close>).\<close>

definition unknown_field :: "string list \<Rightarrow> (yval \<times> yval) list \<Rightarrow> bool" where
  "unknown_field field_names data = list_ex (\<lambda>k. k \<notin> set (map YStr field_names)) (map fst data)"

definition AnsibleConfigSchema_deserialize ::
  "world \<Rightarrow> ConfigContext \<Rightarrow> yval \<Rightarrow> error + AnsibleData" where
  "AnsibleConfigSchema_deserialize w ctx value =
     (case value of
        YDict data \<Rightarrow>
          bindE (load_field data ''config_file''
                   (Field_deserialize True (PathField_deserialize w ctx))) (\<lambda>f1.
          bindE (load_field data ''inventories''
                   (Field_deserialize_required (List_deserialize (PathField_deserialize w ctx)))) (\<lambda>f2.
          bindE (load_field data ''vault_ids''
                   (Field_deserialize_required (List_deserialize (VaultIdField_deserialize w ctx)))) (\<lambda>f3.
          bindE (load_field data ''vault_password_files''
                   (Field_deserialize_required (List_deserialize (PathField_deserialize w ctx)))) (\<lambda>f4.
          bindE (load_field data ''user_scripts''
                   (Field_deserialize_required (List_deserialize (PathField_deserialize w ctx)))) (\<lambda>f5.
          bindE (load_field data ''vars_files''
                   (Field_deserialize_required (List_deserialize (PathField_deserialize w ctx)))) (\<lambda>f6.
          bindE (load_field data ''vault_files''
                   (Field_deserialize_required (List_deserialize (PathField_deserialize w ctx)))) (\<lambda>f7.
          bindE (load_field data ''private_key_file''
                   (Field_deserialize True (PathField_deserialize w ctx))) (\<lambda>f8.
          bindE (load_field data ''user'' (Field_deserialize True String_deserialize)) (\<lambda>f9.
          bindE (load_field data ''vault_encrypt_identity''
                   (Field_deserialize True String_deserialize)) (\<lambda>f10.
          bindE (load_field data ''log_path''
                   (Field_deserialize True (PathField_deserialize w ctx))) (\<lambda>f11.
          bindE (load_field data ''env_vars'' (Field_deserialize_required Dict_deserialize)) (\<lambda>f12.
          if unknown_field AnsibleConfigSchema_names data then Inl ValidationError
          else Inr \<lparr>d_config_file = f1, d_inventories = f2, d_vault_ids = f3,
                    d_vault_password_files = f4, d_user_scripts = f5, d_vars_files = f6,
                    d_vault_files = f7, d_private_key_file = f8, d_user = f9,
                    d_vault_encrypt_identity = f10, d_log_path = f11,
                    d_env_vars = f12\<rparr>))))))))))))
      | _ \<Rightarrow> Inl ValidationError)"

text \<open>\<^verbatim>\<open>AnsibleConfig(**data)\<close>: an absent field takes the dataclass default.\<close>

definition AnsibleConfig_of_data :: "AnsibleData \<Rightarrow> AnsibleConfig" where
  "AnsibleConfig_of_data d =
     \<lparr>config_file = (case d_config_file d of None \<Rightarrow> None | Some v \<Rightarrow> v),
      inventories = (case d_inventories d of None \<Rightarrow> [] | Some v \<Rightarrow> v),
      vault_ids = (case d_vault_ids d of None \<Rightarrow> [] | Some v \<Rightarrow> v),
      vault_password_files = (case d_vault_password_files d of None \<Rightarrow> [] | Some v \<Rightarrow> v),
      user_scripts = (case d_user_scripts d of None \<Rightarrow> [] | Some v \<Rightarrow> v),
      vars_files = (case d_vars_files d of None \<Rightarrow> [] | Some v \<Rightarrow> v),
      vault_files = (case d_vault_files d of None \<Rightarrow> [] | Some v \<Rightarrow> v),
      private_key_file = (case d_private_key_file d of None \<Rightarrow> None | Some v \<Rightarrow> v),
      user = (case d_user d of None \<Rightarrow> None | Some v \<Rightarrow> v),
      vault_encrypt_identity = (case d_vault_encrypt_identity d of None \<Rightarrow> None | Some v \<Rightarrow> v),
      log_path = (case d_log_path d of None \<Rightarrow> None | Some v \<Rightarrow> v),
      env_vars = (case d_env_vars d of None \<Rightarrow> [] | Some v \<Rightarrow> v)\<rparr>"

text \<open>
  The \<^verbatim>\<open>post_load\<close> hook \<^verbatim>\<open>make_object\<close>: the model when the context asks for it, the
  deserialized data otherwise.
\<close>

datatype ('m, 'd) loaded = Model 'm | Data 'd

definition AnsibleConfigSchema_load ::
  "world \<Rightarrow> ConfigContext \<Rightarrow> yval \<Rightarrow> error + (AnsibleConfig, AnsibleData) loaded" where
  "AnsibleConfigSchema_load w ctx value =
     bindE (AnsibleConfigSchema_deserialize w ctx value)
       (\<lambda>d. if create_model ctx then Inr (Model (AnsibleConfig_of_data d)) else Inr (Data d))"

definition MainConfigSchema_load ::
  "world \<Rightarrow> ConfigContext \<Rightarrow> yval
     \<Rightarrow> error + (MainConfig, (AnsibleConfig, AnsibleData) loaded option) loaded" where
  "MainConfigSchema_load w ctx value =
     (case value of
        YDict data \<Rightarrow>
          bindE (load_field data ''ansible''
                   (Field_deserialize_required (AnsibleConfigSchema_load w ctx))) (\<lambda>a.
          if unknown_field [''ansible''] data then Inl ValidationError
          else if create_model ctx then
            Inr (Model \<lparr>ansible = (case a of
                                     Some (Model m) \<Rightarrow> m
                                   | _ \<Rightarrow> AnsibleConfig_default),
                        config_context = Some ctx\<rparr>)
          else Inr (Data a))
      | _ \<Rightarrow> Inl ValidationError)"

section \<open>Files\<close>

text \<open>
  \<^verbatim>\<open>open(filename, "w")\<close> followed by \<^verbatim>\<open>write\<close>: an error for a directory or a path the host
  denies, the file with the new content otherwise.
\<close>

definition write_file :: "world \<Rightarrow> string \<Rightarrow> string \<Rightarrow> error + world" where
  "write_file w filename content =
     (if map_of (files w) filename = Some Dir then Inl IsADirectoryError
      else if write_denied w filename then Inl OSError
      else Inr (w\<lparr>files := dict_set (files w) filename (File content)\<rparr>))"

text \<open>\<^verbatim>\<open>os.rename(src, dst)\<close>: the node moves to the destination, replacing what was there.\<close>

definition os_rename :: "world \<Rightarrow> string \<Rightarrow> string \<Rightarrow> error + world" where
  "os_rename w src dst =
     (case map_of (files w) src of
        None \<Rightarrow> Inl OSError
      | Some n \<Rightarrow>
          if rename_denied w src then Inl OSError
          else Inr (w\<lparr>files := filter (\<lambda>(p, n'). p \<noteq> src \<and> p \<noteq> dst) (files w) @ [(dst, n)]\<rparr>))"

text \<open>
  The loop of \<^verbatim>\<open>backup_file\<close>: \<^verbatim>\<open>~\<close> is appended until the name is free. Each round
  passes an existing name that the longer names to come cannot be, so the loop ends.
\<close>

function backup_name :: "world \<Rightarrow> string \<Rightarrow> string" where
  "backup_name w bak_rpath =
     (if os_path_exists w bak_rpath then backup_name w (bak_rpath @ ''~'') else bak_rpath)"
  by pat_completeness auto
termination
proof (relation "measure (\<lambda>(w, b). length (filter (\<lambda>q. length b \<le> length q) (map fst (files w))))")
  show "wf (measure (\<lambda>(w, b). length (filter (\<lambda>q. length b \<le> length q) (map fst (files w)))))"
    by simp
next
  fix w :: world and bak_rpath :: string
  assume "os_path_exists w bak_rpath"
  then have mem: "bak_rpath \<in> set (map fst (files w))"
    by (auto simp: os_path_exists_def dest: map_of_SomeD intro: rev_image_eqI)
  have less: "length (filter (\<lambda>q. Suc (length b) \<le> length q) xs)
                < length (filter (\<lambda>q. length b \<le> length q) xs)"
    if "b \<in> set xs" for b :: string and xs
    using that
  proof (induction xs)
    case Nil
    then show ?case by simp
  next
    case (Cons x xs)
    have le: "length (filter (\<lambda>q. Suc (length b) \<le> length q) xs)
                \<le> length (filter (\<lambda>q. length b \<le> length q) xs)"
      by (induction xs) auto
    show ?case
    proof (cases "b = x")
      case True
      then show ?thesis using le by simp
    next
      case False
      with Cons have "length (filter (\<lambda>q. Suc (length b) \<le> length q) xs)
                        < length (filter (\<lambda>q. length b \<le> length q) xs)"
        by simp
      then show ?thesis by simp
    qed
  qed
  show "((w, bak_rpath @ ''~''), (w, bak_rpath))
          \<in> measure (\<lambda>(w, b). length (filter (\<lambda>q. length b \<le> length q) (map fst (files w))))"
    using less [OF mem] by simp
qed

definition backup_file :: "world \<Rightarrow> string \<Rightarrow> error + world" where
  "backup_file w p =
     (let rpath = realpath w p in
      if os_path_exists w rpath then os_rename w rpath (backup_name w (rpath @ ''~''))
      else Inr w)"

text \<open>
  \<^verbatim>\<open>save_config_dict\<close> catches every exception of the backup and of the write and
  returns False; it returns the host as the last successful step left it.
\<close>

definition save_config_dict :: "world \<Rightarrow> string \<Rightarrow> yval \<Rightarrow> bool \<Rightarrow> bool \<times> world" where
  "save_config_dict w filename config_dict do_backup =
     (case (if do_backup then backup_file w filename else Inr w) of
        Inl e \<Rightarrow> (False, w)
      | Inr w1 \<Rightarrow>
          (case write_file w1 filename (yaml_dump w config_dict) of
             Inl e \<Rightarrow> (False, w1)
           | Inr w2 \<Rightarrow> (True, w2)))"

definition ANSIBLE_VAULT_MAGIC :: string where
  "ANSIBLE_VAULT_MAGIC = ''$ANSIBLE_VAULT;''"

definition is_vault :: "world \<Rightarrow> string \<Rightarrow> error + bool" where
  "is_vault w filename =
     (if \<not> os_path_exists w filename then Inr False
      else (case map_of (files w) filename of
              Some (File content) \<Rightarrow>
                Inr (take (length ANSIBLE_VAULT_MAGIC) content = ANSIBLE_VAULT_MAGIC)
            | _ \<Rightarrow> Inl IsADirectoryError))"

section \<open>Reading configuration files\<close>

definition CONFIG_DEFAULTS :: yval where
  "CONFIG_DEFAULTS =
     YDict [(YStr ''ansible'',
             YDict [(YStr ''config_file'', YStr ''ansible.cfg''),
                    (YStr ''inventories'', YList [YStr ''inventory''])])]"

text \<open>
  \<^verbatim>\<open>simple_dict_merge\<close> of two dicts: the first loop keeps the keys of \<^verbatim>\<open>a\<close>, taking the
  value from \<^verbatim>\<open>b\<close> where \<^verbatim>\<open>b\<close> has the key and merging where both values are dicts; the
  second loop adds the keys only \<^verbatim>\<open>b\<close> has.
\<close>

fun simple_dict_merge :: "(yval \<times> yval) list \<Rightarrow> (yval \<times> yval) list \<Rightarrow> (yval \<times> yval) list"
  and merge_first_loop :: "(yval \<times> yval) list \<Rightarrow> (yval \<times> yval) list \<Rightarrow> (yval \<times> yval) list" where
  "simple_dict_merge a b =
     dict_of_items (merge_first_loop a b @ filter (\<lambda>(k, v). map_of a k = None) b)"
| "merge_first_loop [] b = []"
| "merge_first_loop ((k, YDict va) # a) b =
     (case map_of b k of
        None \<Rightarrow> (k, YDict va)
      | Some (YDict vb) \<Rightarrow> (k, YDict (simple_dict_merge va vb))
      | Some bv \<Rightarrow> (k, bv)) # merge_first_loop a b"
| "merge_first_loop ((k, v) # a) b =
     (case map_of b k of None \<Rightarrow> (k, v) | Some bv \<Rightarrow> (k, bv)) # merge_first_loop a b"

text \<open>
  The merge of values that need not be dicts. Where Python raises (TypeError or
  AttributeError, depending on the value), the model raises one of the two.
\<close>

definition simple_dict_merge_values :: "yval \<Rightarrow> yval \<Rightarrow> error + yval" where
  "simple_dict_merge_values a b =
     (case a of
        YDict da \<Rightarrow> (case b of YDict db \<Rightarrow> Inr (YDict (simple_dict_merge da db))
                              | _ \<Rightarrow> Inl TypeError)
      | _ \<Rightarrow> Inl AttributeError)"

fun py_truthy :: "yval \<Rightarrow> bool" where
  "py_truthy YNone = False"
| "py_truthy (YBool b) = b"
| "py_truthy (YInt i) = (i \<noteq> 0)"
| "py_truthy (YStr s) = (s \<noteq> [])"
| "py_truthy (YList xs) = (xs \<noteq> [])"
| "py_truthy (YDict d) = (d \<noteq> [])"

text \<open>
  \<^verbatim>\<open>load_config_dict\<close>: a file that cannot be read or parsed counts as empty (the
  exception is logged), then the defaults are merged in.
\<close>

definition load_config_dict :: "world \<Rightarrow> string \<Rightarrow> yval \<Rightarrow> error + yval" where
  "load_config_dict w filename defaults =
     (let config_dict =
        (if filename \<noteq> [] \<and> os_path_exists w filename then
           (case map_of (files w) filename of
              Some (File content) \<Rightarrow>
                (case yaml_load w content of
                   Inl e \<Rightarrow> YDict []
                 | Inr v \<Rightarrow> if v = YNone then YDict [] else v)
            | _ \<Rightarrow> YDict [])
         else YDict [])
      in if py_truthy defaults then simple_dict_merge_values defaults config_dict
         else Inr config_dict)"

section \<open>Comparing values\<close>

text \<open>
  \<^verbatim>\<open>==\<close> on loaded and dumped values: lists compare element by element, dicts by their
  length and by every item of the left one having an equal value under its key in the
  right one (keys are looked up by structural equality).
\<close>

fun py_eq :: "yval \<Rightarrow> yval \<Rightarrow> bool"
  and py_eq_list :: "yval list \<Rightarrow> yval list \<Rightarrow> bool"
  and py_eq_items :: "(yval \<times> yval) list \<Rightarrow> (yval \<times> yval) list \<Rightarrow> bool" where
  "py_eq YNone YNone = True"
| "py_eq (YBool a) (YBool b) = (a = b)"
| "py_eq (YBool a) (YInt b) = ((if a then 1 else 0) = b)"
| "py_eq (YInt a) (YBool b) = (a = (if b then 1 else 0))"
| "py_eq (YInt a) (YInt b) = (a = b)"
| "py_eq (YStr a) (YStr b) = (a = b)"
| "py_eq (YList a) (YList b) = py_eq_list a b"
| "py_eq (YDict a) (YDict b) = (length a = length b \<and> py_eq_items a b)"
| "py_eq a b = False"
| "py_eq_list [] [] = True"
| "py_eq_list (x # xs) (y # ys) = (py_eq x y \<and> py_eq_list xs ys)"
| "py_eq_list xs ys = False"
| "py_eq_items [] b = True"
| "py_eq_items ((k, v) # a) b =
     ((case map_of b k of None \<Rightarrow> False | Some v' \<Rightarrow> py_eq v v') \<and> py_eq_items a b)"

text \<open>\<^verbatim>\<open>==\<close> on the scalar values: True and False equal 1 and 0.\<close>

fun pyval_eq :: "pyval \<Rightarrow> pyval \<Rightarrow> bool" where
  "pyval_eq (PBool a) (PInt b) = ((if a then 1 else 0) = b)"
| "pyval_eq (PInt a) (PBool b) = (a = (if b then 1 else 0))"
| "pyval_eq a b = (a = b)"

section \<open>The configurator\<close>

record Configurator =
  debug_mode :: bool
  config :: MainConfig
  initial_config_dict :: yval

text \<open>
  \<^verbatim>\<open>config_to_dict\<close> dumps with absolute paths; it needs the context of the configuration
  and raises AttributeError when there is none.
\<close>

definition config_to_dict :: "world \<Rightarrow> Configurator \<Rightarrow> error + yval" where
  "config_to_dict w c =
     (case config_context (config c) of
        None \<Rightarrow> Inl AttributeError
      | Some cc \<Rightarrow>
          Inr (MainConfigSchema_dump w
                 \<lparr>ConfigContext.config_file = ConfigContext.config_file cc, create_model = True,
                  serialize_relative_paths = False\<rparr>
                 (config c)))"

definition config_changed :: "world \<Rightarrow> Configurator \<Rightarrow> error + bool" where
  "config_changed w c =
     bindE (config_to_dict w c) (\<lambda>d. Inr (\<not> py_eq d (initial_config_dict c)))"

text \<open>The context \<^verbatim>\<open>__init__\<close> and \<^verbatim>\<open>save\<close> build for a file name.\<close>

definition context_of_file :: "world \<Rightarrow> string \<Rightarrow> ConfigContext" where
  "context_of_file w filename =
     \<lparr>ConfigContext.config_file = parse_path (realpath w filename), create_model = True,
      serialize_relative_paths = True\<rparr>"

text \<open>What \<^verbatim>\<open>schema.load\<close> returned, as the configuration: a model, when the context asks
  for models.\<close>

fun loaded_model :: "(MainConfig, 'd) loaded \<Rightarrow> error + MainConfig" where
  "loaded_model (Model m) = Inr m"
| "loaded_model (Data d) = Inl AttributeError"

text \<open>
  The merge actions of a loaded mapping: the keys that start with \<^verbatim>\<open>$\<close> are popped from
  it. A mapping with a key that is not a string, or a value that is no mapping, raises
  AttributeError.
\<close>

fun is_merge_action :: "yval \<times> yval \<Rightarrow> bool" where
  "is_merge_action (YStr k, v) = (k \<noteq> [] \<and> hd k = CHR ''$'')"
| "is_merge_action kv = False"

fun str_keyed :: "(yval \<times> yval) list \<Rightarrow> (string \<times> yval) list" where
  "str_keyed [] = []"
| "str_keyed ((YStr k, v) # kvs) = (k, v) # str_keyed kvs"
| "str_keyed (kv # kvs) = str_keyed kvs"

fun is_str_key :: "yval \<times> yval \<Rightarrow> bool" where
  "is_str_key (YStr k, v) = True"
| "is_str_key kv = False"

fun pop_merge_options :: "yval \<Rightarrow> error + ((string \<times> yval) list \<times> yval)" where
  "pop_merge_options (YDict d) =
     (if list_all is_str_key d
      then Inr (str_keyed (filter is_merge_action d), YDict (filter (\<lambda>kv. \<not> is_merge_action kv) d))
      else Inl AttributeError)"
| "pop_merge_options v = Inl AttributeError"

text \<open>
  The loop of \<^verbatim>\<open>__init__\<close> over several files: each file is loaded on top of the mapping
  of the file before it, and its model is merged into the models so far with the merge
  actions of its own.
\<close>

fun load_files ::
  "world \<Rightarrow> string list \<Rightarrow> yval \<Rightarrow> MainConfig option \<Rightarrow> error + MainConfig option" where
  "load_files w [] config_dict merged_config_model = Inr merged_config_model"
| "load_files w (file_name # rest) config_dict merged_config_model =
     bindE (load_config_dict w file_name config_dict) (\<lambda>loaded_dict.
     bindE (pop_merge_options loaded_dict) (\<lambda>(opts, config_dict1).
     bindE (MainConfigSchema_load w (context_of_file w file_name) config_dict1) (\<lambda>loaded.
     bindE (loaded_model loaded) (\<lambda>config_model.
       (case merged_config_model of
          None \<Rightarrow> load_files w rest config_dict1 (Some config_model)
        | Some merged \<Rightarrow>
            bindE (AttrMerger_init opts) (\<lambda>am.
            bindE (MainConfig_merge merged config_model am) (\<lambda>(merged1, am1).
              load_files w rest config_dict1 (Some merged1))))))))"

definition load_configuration :: "world \<Rightarrow> string list \<Rightarrow> error + MainConfig" where
  "load_configuration w config_files =
     (if config_files \<noteq> [] then
        (if length config_files = 1 then
           bindE (load_config_dict w (hd config_files) CONFIG_DEFAULTS) (\<lambda>config_dict.
           bindE (MainConfigSchema_load w (context_of_file w (hd config_files)) config_dict)
             loaded_model)
         else
           bindE (load_files w config_files CONFIG_DEFAULTS None) (\<lambda>merged.
             case merged of None \<Rightarrow> Inl AttributeError | Some m \<Rightarrow> Inr m))
      else Inr MainConfig_default)"

definition Configurator_init :: "world \<Rightarrow> string list \<Rightarrow> bool \<Rightarrow> error + Configurator" where
  "Configurator_init w config_files debug =
     bindE (load_configuration w config_files) (\<lambda>m.
     bindE (config_to_dict w \<lparr>debug_mode = debug, config = m, initial_config_dict = YNone\<rparr>) (\<lambda>d.
       Inr \<lparr>debug_mode = debug, config = m, initial_config_dict = d\<rparr>))"

text \<open>
  \<^verbatim>\<open>save\<close>: without a file name and without \<^verbatim>\<open>force\<close> an unchanged configuration is not
  written. The write itself cannot raise: \<^verbatim>\<open>save_config_dict\<close> reports its failures as
  False.
\<close>

definition save ::
  "world \<Rightarrow> Configurator \<Rightarrow> string option \<Rightarrow> bool \<Rightarrow> bool \<Rightarrow> error + (bool \<times> world)" where
  "save w c filename force do_backup =
     (let write = (\<lambda>ctx. Inr (save_config_dict w (str_path (ConfigContext.config_file ctx))
                                 (MainConfigSchema_dump w ctx (config c)) do_backup));
          own = (case config_context (config c) of
                   None \<Rightarrow> Inl AttributeError
                 | Some cc \<Rightarrow>
                     write \<lparr>ConfigContext.config_file = ConfigContext.config_file cc,
                            create_model = True, serialize_relative_paths = True\<rparr>);
          unnamed = (if \<not> force then
                       bindE (config_changed w c)
                         (\<lambda>changed. if \<not> changed then Inr (False, w) else own)
                     else own)
      in case filename of
           None \<Rightarrow> unnamed
         | Some f \<Rightarrow> if f \<noteq> [] then write (context_of_file w f) else unnamed)"

subsection \<open>Setters\<close>

text \<open>\<^verbatim>\<open>to_list\<close> and \<^verbatim>\<open>to_abspath_list\<close>, called with a list of strings.\<close>

definition to_list :: "'a list \<Rightarrow> 'a list" where
  "to_list value = (if value = [] then [] else value)"

definition to_abspath_list :: "world \<Rightarrow> string list \<Rightarrow> string list" where
  "to_abspath_list w value = map (abspath w) (filter (\<lambda>p. p \<noteq> []) (to_list value))"

definition update_ansible :: "(AnsibleConfig \<Rightarrow> AnsibleConfig) \<Rightarrow> Configurator \<Rightarrow> Configurator" where
  "update_ansible f c = c\<lparr>config := (config c)\<lparr>ansible := f (ansible (config c))\<rparr>\<rparr>"

definition set_ansible_user :: "Configurator \<Rightarrow> string option \<Rightarrow> Configurator" where
  "set_ansible_user c value = update_ansible (\<lambda>a. a\<lparr>user := value\<rparr>) c"

definition set_ansible_private_key_file :: "world \<Rightarrow> Configurator \<Rightarrow> string \<Rightarrow> Configurator" where
  "set_ansible_private_key_file w c value =
     update_ansible (\<lambda>a. a\<lparr>private_key_file := Some (parse_path (abspath w value))\<rparr>) c"

definition set_ansible_config_file :: "world \<Rightarrow> Configurator \<Rightarrow> string \<Rightarrow> Configurator" where
  "set_ansible_config_file w c value =
     update_ansible (\<lambda>a. a\<lparr>config_file := Some (parse_path (abspath w value))\<rparr>) c"

definition set_ansible_inventories :: "world \<Rightarrow> Configurator \<Rightarrow> string list \<Rightarrow> Configurator" where
  "set_ansible_inventories w c value =
     update_ansible (\<lambda>a. a\<lparr>inventories := map parse_path (to_abspath_list w value)\<rparr>) c"

definition set_ansible_vault_password_files ::
  "world \<Rightarrow> Configurator \<Rightarrow> string list \<Rightarrow> Configurator" where
  "set_ansible_vault_password_files w c value =
     update_ansible (\<lambda>a. a\<lparr>vault_password_files := map parse_path (to_abspath_list w value)\<rparr>) c"

text \<open>An element of the list given to \<^verbatim>\<open>set_ansible_vault_ids\<close> is a string or a VaultId.\<close>

fun vault_id_truthy :: "string + VaultId \<Rightarrow> bool" where
  "vault_id_truthy (Inl s) = (s \<noteq> [])"
| "vault_id_truthy (Inr v) = True"

fun to_vault_id :: "world \<Rightarrow> string + VaultId \<Rightarrow> VaultId" where
  "to_vault_id w (Inl s) = VaultId_of_str w s"
| "to_vault_id w (Inr v) = v"

definition set_ansible_vault_ids ::
  "world \<Rightarrow> Configurator \<Rightarrow> (string + VaultId) list \<Rightarrow> Configurator" where
  "set_ansible_vault_ids w c value =
     update_ansible
       (\<lambda>a. a\<lparr>vault_ids := map (to_vault_id w) (filter vault_id_truthy (to_list value))\<rparr>) c"

definition set_ansible_vault_encrypt_identity ::
  "Configurator \<Rightarrow> string option \<Rightarrow> Configurator" where
  "set_ansible_vault_encrypt_identity c value =
     update_ansible (\<lambda>a. a\<lparr>vault_encrypt_identity := value\<rparr>) c"

definition set_ansible_log_path :: "world \<Rightarrow> Configurator \<Rightarrow> string \<Rightarrow> Configurator" where
  "set_ansible_log_path w c value =
     update_ansible (\<lambda>a. a\<lparr>log_path := Some (parse_path (abspath w value))\<rparr>) c"

definition set_ansible_vault_files :: "world \<Rightarrow> Configurator \<Rightarrow> string list \<Rightarrow> Configurator" where
  "set_ansible_vault_files w c value =
     update_ansible (\<lambda>a. a\<lparr>vault_files := map parse_path (to_abspath_list w value)\<rparr>) c"

definition set_ansible_vars_files :: "world \<Rightarrow> Configurator \<Rightarrow> string list \<Rightarrow> Configurator" where
  "set_ansible_vars_files w c value =
     update_ansible (\<lambda>a. a\<lparr>vars_files := map parse_path (to_abspath_list w value)\<rparr>) c"

definition set_ansible_user_scripts :: "world \<Rightarrow> Configurator \<Rightarrow> string list \<Rightarrow> Configurator" where
  "set_ansible_user_scripts w c value =
     update_ansible (\<lambda>a. a\<lparr>user_scripts := map parse_path (to_abspath_list w value)\<rparr>) c"

text \<open>
  \<^verbatim>\<open>set_ansible_env_vars\<close>: the dict comprehension turns every key into a string and
  stores every value as it is given.
\<close>

definition set_ansible_env_vars :: "Configurator \<Rightarrow> (pyval \<times> pyval) list \<Rightarrow> Configurator" where
  "set_ansible_env_vars c value =
     update_ansible (\<lambda>a. a\<lparr>env_vars := dict_of_items (map (\<lambda>(k, v). (py_str k, v)) value)\<rparr>) c"

section \<open>Notions used in the statements\<close>

text \<open>The dotted name \<^verbatim>\<open>begin_attr\<close> forms, and the value \<^verbatim>\<open>merge_attr\<close> stores.\<close>

definition attr_path :: "AttrMerger \<Rightarrow> string \<Rightarrow> string" where
  "attr_path am name = (if cur_attr_name am \<noteq> [] then cur_attr_name am @ ''.'' @ name else name)"

definition merged_value ::
  "AttrMerger \<Rightarrow> string \<Rightarrow> ('v \<Rightarrow> 'v \<Rightarrow> 'v) \<Rightarrow> 'v \<Rightarrow> 'v \<Rightarrow> 'v" where
  "merged_value am name combine this_value that_value =
     (if attr_path am name \<in> replace_vars am then that_value else combine this_value that_value)"

definition appends_new :: "'a list \<Rightarrow> 'a list \<Rightarrow> 'a list \<Rightarrow> bool" where
  "appends_new base_list overlay_list result =
     (result = base_list @ filter (\<lambda>x. x \<notin> set base_list) overlay_list \<and>
      (\<forall>x. x \<notin> set base_list \<longrightarrow> count_list result x = count_list overlay_list x) \<and>
      (distinct overlay_list \<longrightarrow>
         (\<forall>x \<in> set overlay_list - set base_list. count_list result x = 1)))"

text \<open>When a value survives a dump followed by a load.\<close>

definition lies_under :: "path \<Rightarrow> path \<Rightarrow> bool" where
  "lies_under p base = (case relative_to p base of Inl e \<Rightarrow> False | Inr rel \<Rightarrow> True)"

definition path_encoding :: "ConfigContext \<Rightarrow> path \<Rightarrow> string" where
  "path_encoding ctx p =
     (if serialize_relative_paths ctx then
        (case relative_to p (config_dir ctx) of
           Inl e \<Rightarrow> str_path p
         | Inr rel \<Rightarrow> str_path rel)
      else str_path p)"

definition context_round_trips :: "ConfigContext \<Rightarrow> bool" where
  "context_round_trips ctx =
     (create_model ctx \<and> (serialize_relative_paths ctx \<or> root (config_dir ctx) \<noteq> []))"

definition path_round_trips :: "world \<Rightarrow> ConfigContext \<Rightarrow> path \<Rightarrow> bool" where
  "path_round_trips w ctx p =
     (wf_path p \<and> lies_under p (config_dir ctx) \<and>
      expanduser w (path_encoding ctx p) = path_encoding ctx p)"

definition vault_id_round_trips :: "world \<Rightarrow> ConfigContext \<Rightarrow> VaultId \<Rightarrow> bool" where
  "vault_id_round_trips w ctx v =
     (CHR ''@'' \<notin> set (label v) \<and>
      (if source_is_path v then
         str_path (parse_path (source v)) = source v \<and>
         lies_under (parse_path (source v)) (config_dir ctx) \<and>
         path_encoding ctx (parse_path (source v)) \<noteq> ''prompt'' \<and>
         auto_realpath w (path_encoding ctx (parse_path (source v))) None True
           = path_encoding ctx (parse_path (source v)) \<and>
         expanduser w (path_encoding ctx (parse_path (source v)))
           = path_encoding ctx (parse_path (source v))
       else True))"

fun is_PStr :: "pyval \<Rightarrow> bool" where
  "is_PStr (PStr s) = True"
| "is_PStr v = False"

definition settings_round_trip :: "world \<Rightarrow> ConfigContext \<Rightarrow> AnsibleConfig \<Rightarrow> bool" where
  "settings_round_trip w ctx s =
     ((case config_file s of None \<Rightarrow> True | Some p \<Rightarrow> path_round_trips w ctx p) \<and>
      list_all (path_round_trips w ctx) (inventories s) \<and>
      list_all (vault_id_round_trips w ctx) (vault_ids s) \<and>
      list_all (path_round_trips w ctx) (vault_password_files s) \<and>
      list_all (path_round_trips w ctx) (user_scripts s) \<and>
      list_all (path_round_trips w ctx) (vars_files s) \<and>
      list_all (path_round_trips w ctx) (vault_files s) \<and>
      (case private_key_file s of None \<Rightarrow> True | Some p \<Rightarrow> path_round_trips w ctx p) \<and>
      (case log_path s of None \<Rightarrow> True | Some p \<Rightarrow> path_round_trips w ctx p) \<and>
      list_all (\<lambda>(k, v). is_PStr v) (env_vars s) \<and>
      distinct (map fst (env_vars s)))"

text \<open>
  A host, a context and settings to evaluate the statements on: the current user's home
  is \<^verbatim>\<open>/home/u\<close>, no file exists, the configuration file is \<^verbatim>\<open>/etc/config.yml\<close>.
\<close>

definition example_world :: world where
  "example_world =
     \<lparr>files = [], realpath = (\<lambda>p. p), abspath = (\<lambda>p. p),
      userhome = (\<lambda>u. if u = [] then Some ''/home/u'' else None),
      write_denied = (\<lambda>p. False), rename_denied = (\<lambda>p. False),
      yaml_dump = (\<lambda>v. []), yaml_load = (\<lambda>t. Inr YNone)\<rparr>"

definition example_context :: ConfigContext where
  "example_context =
     \<lparr>ConfigContext.config_file = Path ''/'' [''etc'', ''config.yml''], create_model = True,
      serialize_relative_paths = True\<rparr>"

definition tilde_settings :: AnsibleConfig where
  "tilde_settings = AnsibleConfig_default\<lparr>inventories := [Path ''/'' [''etc'', ''~'']]\<rparr>"

definition example_settings :: AnsibleConfig where
  "example_settings =
     AnsibleConfig_default
       \<lparr>config_file := Some (Path ''/'' [''etc'', ''ansible.cfg'']),
        inventories := [Path ''/'' [''etc'', ''inv'', ''hosts'']],
        vault_ids := [\<lparr>label = ''prod'', source = ''/etc/vault_pw''\<rparr>],
        user := Some ''alice'',
        env_vars := [(''A'', PStr ''1'')]\<rparr>"

text \<open>
  A host with an encrypted file, a file shorter than the magic prefix, an empty file and
  a plain file.
\<close>

definition vault_world :: world where
  "vault_world =
     example_world\<lparr>files := [(''/etc/secrets.yml'', File ''$ANSIBLE_VAULT;1.1;AES256''),
                             (''/etc/short.yml'', File ''$ANSIBLE''),
                             (''/etc/empty.yml'', File []),
                             (''/etc/plain.yml'', File ''ansible_become_pass: x'')]\<rparr>"

text \<open>
  The context \<^verbatim>\<open>save\<close> dumps with, and the file it writes: those of the given file name,
  or else those of the loaded configuration.
\<close>

definition save_context :: "world \<Rightarrow> Configurator \<Rightarrow> string option \<Rightarrow> ConfigContext option" where
  "save_context w c filename =
     (let own = (case config_context (config c) of
                   None \<Rightarrow> None
                 | Some cc \<Rightarrow>
                     Some \<lparr>ConfigContext.config_file = ConfigContext.config_file cc,
                           create_model = True, serialize_relative_paths = True\<rparr>)
      in case filename of
           None \<Rightarrow> own
         | Some f \<Rightarrow> if f \<noteq> [] then Some (context_of_file w f) else own)"

definition save_target :: "ConfigContext \<Rightarrow> string" where
  "save_target ctx = str_path (ConfigContext.config_file ctx)"

text \<open>
  A host that refuses every write and every rename, and a configurator holding the
  default settings with the snapshot of exactly these settings.
\<close>

definition denying_world :: world where
  "denying_world =
     example_world\<lparr>files := [(''/etc/config.yml'', File ''old'')],
                   write_denied := (\<lambda>p. True), rename_denied := (\<lambda>p. True)\<rparr>"

definition plain_configurator :: Configurator where
  "plain_configurator =
     \<lparr>debug_mode = False,
      config = \<lparr>ansible = AnsibleConfig_default, config_context = Some example_context\<rparr>,
      initial_config_dict =
        MainConfigSchema_dump denying_world
          \<lparr>ConfigContext.config_file = Path ''/'' [''etc'', ''config.yml''], create_model = True,
           serialize_relative_paths = False\<rparr>
          \<lparr>ansible = AnsibleConfig_default, config_context = Some example_context\<rparr>\<rparr>"

section \<open>Properties of merging\<close>

lemma end_begin_attr: "end_attr (begin_attr am name) = Inr am"
  by (simp add: end_attr_def begin_attr_def)

lemma cur_begin_attr: "cur_attr_name (begin_attr am name) = attr_path am name"
  by (simp add: begin_attr_def attr_path_def)

lemma replace_vars_begin_attr: "replace_vars (begin_attr am name) = replace_vars am"
  by (simp add: begin_attr_def)

lemma merge_attr_eq:
  "merge_attr am this_obj that_obj name getattr setattr combine =
     Inr (setattr (merged_value am name combine (getattr this_obj) (getattr that_obj)) this_obj, am)"
  by (simp add: merge_attr_def Let_def end_begin_attr cur_begin_attr replace_vars_begin_attr
      bindE_def merged_value_def)

lemma AnsibleConfig_merge_eq:
  "AnsibleConfig_merge self other am =
     Inr (\<lparr>config_file = config_file other,
           inventories = merged_value am ''inventories'' merge_sequences (inventories self) (inventories other),
           vault_ids = merged_value am ''vault_ids'' merge_sequences (vault_ids self) (vault_ids other),
           vault_password_files = merged_value am ''vault_password_files'' merge_sequences
              (vault_password_files self) (vault_password_files other),
           user_scripts = merged_value am ''user_scripts'' merge_sequences (user_scripts self) (user_scripts other),
           vars_files = merged_value am ''vars_files'' merge_sequences (vars_files self) (vars_files other),
           vault_files = merged_value am ''vault_files'' merge_sequences (vault_files self) (vault_files other),
           private_key_file = private_key_file other,
           user = user other,
           vault_encrypt_identity = vault_encrypt_identity other,
           log_path = log_path other,
           env_vars = merged_value am ''env_vars'' merge_other (env_vars self) (env_vars other)\<rparr>, am)"
  unfolding AnsibleConfig_merge_def merge_attr_eq bindE_def
  by simp

lemma MainConfig_merge_eq:
  "MainConfig_merge self other am =
     bindE (AnsibleConfig_merge (ansible self) (ansible other) (begin_attr am ''ansible''))
       (\<lambda>(a, am1). Inr (\<lparr>ansible = a, config_context = config_context other\<rparr>, am))"
  unfolding MainConfig_merge_def AnsibleConfig_merge_eq bindE_def
  by (simp add: end_begin_attr)

lemma attr_path_ansible:
  "cur_attr_name am = [] \<Longrightarrow> attr_path (begin_attr am ''ansible'') name = ''ansible.'' @ name"
  by (simp add: attr_path_def begin_attr_def)

lemma AttrMerger_init_fresh: "AttrMerger_init opts = Inr am \<Longrightarrow> cur_attr_name am = []"
  by (auto simp: AttrMerger_init_def bindE_def split: sum.splits option.splits)

lemma count_list_filter_notin:
  "x \<notin> set b \<Longrightarrow> count_list (filter (\<lambda>y. y \<notin> set b) ys) x = count_list ys x"
  by (induction ys) auto

lemma count_list_distinct: "distinct ys \<Longrightarrow> x \<in> set ys \<Longrightarrow> count_list ys x = 1"
  by (induction ys) auto

lemma merge_sequences_appends_new: "appends_new b ov (merge_sequences b ov)"
  by (simp add: appends_new_def merge_sequences_def count_list_filter_notin count_list_distinct)

lemma merged_value_keep:
  "attr_path am name \<notin> replace_vars am \<Longrightarrow> merged_value am name combine a b = combine a b"
  by (simp add: merged_value_def)

lemma merged_value_replace:
  "attr_path am name \<in> replace_vars am \<Longrightarrow> merged_value am name combine a b = b"
  by (simp add: merged_value_def)

text \<open>
  Claim C2, as the code has it. After \<^verbatim>\<open>MainConfig.merge\<close> with a fresh merger, every list
  field whose dotted name is not in the replace set holds the base list in its order,
  followed by the overlay's elements that the base list does not contain, in the
  overlay's order. An appended element occurs as often as it occurs in the overlay list:
  exactly once when the overlay list has no duplicates.
\<close>

theorem merge_append_unique:
  assumes "AttrMerger_init opts = Inr am"
  shows "\<exists>r. MainConfig_merge base overlay am = Inr (r, am) \<and>
    (''ansible.inventories'' \<notin> replace_vars am \<longrightarrow>
       appends_new (inventories (ansible base)) (inventories (ansible overlay))
         (inventories (ansible r))) \<and>
    (''ansible.vault_ids'' \<notin> replace_vars am \<longrightarrow>
       appends_new (vault_ids (ansible base)) (vault_ids (ansible overlay))
         (vault_ids (ansible r))) \<and>
    (''ansible.vault_password_files'' \<notin> replace_vars am \<longrightarrow>
       appends_new (vault_password_files (ansible base)) (vault_password_files (ansible overlay))
         (vault_password_files (ansible r))) \<and>
    (''ansible.user_scripts'' \<notin> replace_vars am \<longrightarrow>
       appends_new (user_scripts (ansible base)) (user_scripts (ansible overlay))
         (user_scripts (ansible r))) \<and>
    (''ansible.vars_files'' \<notin> replace_vars am \<longrightarrow>
       appends_new (vars_files (ansible base)) (vars_files (ansible overlay))
         (vars_files (ansible r))) \<and>
    (''ansible.vault_files'' \<notin> replace_vars am \<longrightarrow>
       appends_new (vault_files (ansible base)) (vault_files (ansible overlay))
         (vault_files (ansible r)))"
proof -
  have fresh: "cur_attr_name am = []"
    using assms by (rule AttrMerger_init_fresh)
  have rv: "replace_vars (begin_attr am ''ansible'') = replace_vars am"
    by (rule replace_vars_begin_attr)
  show ?thesis
    unfolding MainConfig_merge_eq AnsibleConfig_merge_eq bindE_def
    by (simp add: merged_value_def attr_path_ansible [OF fresh] rv merge_sequences_appends_new)
qed

theorem merge_append_unique_witness:
  "AttrMerger_init [(''$replace_vars'', YList [])]
     = Inr \<lparr>merge_options = [(''$replace_vars'', YList [])], replace_vars = {},
            cur_attr_name = [], attr_name_stack = []\<rparr> \<and>
   (\<exists>r. MainConfig_merge
          (MainConfig_default\<lparr>ansible := AnsibleConfig_default\<lparr>inventories := [Path ''/'' [''a'']]\<rparr>\<rparr>)
          (MainConfig_default\<lparr>ansible := AnsibleConfig_default\<lparr>inventories := [Path ''/'' [''b'']]\<rparr>\<rparr>)
          \<lparr>merge_options = [(''$replace_vars'', YList [])], replace_vars = {},
            cur_attr_name = [], attr_name_stack = []\<rparr>
        = Inr (r, \<lparr>merge_options = [(''$replace_vars'', YList [])], replace_vars = {},
                   cur_attr_name = [], attr_name_stack = []\<rparr>) \<and>
        inventories (ansible r) = [Path ''/'' [''a''], Path ''/'' [''b'']])"
proof -
  have h: "AttrMerger_init [(''$replace_vars'', YList [])]
     = Inr \<lparr>merge_options = [(''$replace_vars'', YList [])], replace_vars = {},
            cur_attr_name = [], attr_name_stack = []\<rparr>"
    by (simp add: AttrMerger_init_def bindE_def REPLACE_VARS_MERGE_ACTION_def)
  show ?thesis
    using h merge_append_unique [OF h,
        of "MainConfig_default\<lparr>ansible := AnsibleConfig_default\<lparr>inventories := [Path ''/'' [''a'']]\<rparr>\<rparr>"
           "MainConfig_default\<lparr>ansible := AnsibleConfig_default\<lparr>inventories := [Path ''/'' [''b'']]\<rparr>\<rparr>"]
    by (auto simp: appends_new_def)
qed

text \<open>
  Claim C2 as stated fails: an element the overlay list holds twice, and the base list
  does not hold, is appended twice.
\<close>

theorem merge_duplicate_counterexample:
  "(case bindE (AttrMerger_init [])
           (MainConfig_merge MainConfig_default
              (MainConfig_default\<lparr>ansible := AnsibleConfig_default
                 \<lparr>inventories := [Path ''/'' [''a''], Path ''/'' [''a'']]\<rparr>\<rparr>)) of
      Inl e \<Rightarrow> False
    | Inr (r, am) \<Rightarrow>
        ''ansible.inventories'' \<notin> replace_vars am \<and>
        Path ''/'' [''a''] \<notin> set (inventories (ansible MainConfig_default)) \<and>
        count_list (inventories (ansible r)) (Path ''/'' [''a'']) = 2)"
  unfolding MainConfig_merge_eq AnsibleConfig_merge_eq
  by (simp add: AttrMerger_init_def bindE_def merged_value_def attr_path_def begin_attr_def
      merge_sequences_def MainConfig_default_def AnsibleConfig_default_def)

text \<open>
  Claim C3. When \<^verbatim>\<open>"ansible.inventories"\<close> is in the replace set of the overlay's merger,
  the merged inventories are the overlay's, whatever the base held.
\<close>

theorem replace_policy_inventories:
  assumes "AttrMerger_init opts = Inr am"
      and "''ansible.inventories'' \<in> replace_vars am"
  shows "\<exists>r. MainConfig_merge base overlay am = Inr (r, am) \<and>
           inventories (ansible r) = inventories (ansible overlay)"
proof -
  have fresh: "cur_attr_name am = []"
    using assms(1) by (rule AttrMerger_init_fresh)
  have "attr_path (begin_attr am ''ansible'') ''inventories''
          \<in> replace_vars (begin_attr am ''ansible'')"
    using assms(2) by (simp add: attr_path_ansible [OF fresh] replace_vars_begin_attr)
  then show ?thesis
    unfolding MainConfig_merge_eq AnsibleConfig_merge_eq bindE_def
    by (simp add: merged_value_replace)
qed

theorem replace_policy_inventories_witness:
  "AttrMerger_init [(''$replace_vars'', YList [YStr ''ansible.inventories''])]
     = Inr \<lparr>merge_options = [(''$replace_vars'', YList [YStr ''ansible.inventories''])],
            replace_vars = {''ansible.inventories''}, cur_attr_name = [], attr_name_stack = []\<rparr> \<and>
   (\<exists>r. MainConfig_merge
          (MainConfig_default\<lparr>ansible := AnsibleConfig_default\<lparr>inventories := [Path ''/'' [''a'']]\<rparr>\<rparr>)
          (MainConfig_default\<lparr>ansible := AnsibleConfig_default\<lparr>inventories := [Path ''/'' [''b'']]\<rparr>\<rparr>)
          \<lparr>merge_options = [(''$replace_vars'', YList [YStr ''ansible.inventories''])],
            replace_vars = {''ansible.inventories''}, cur_attr_name = [], attr_name_stack = []\<rparr>
        = Inr (r, \<lparr>merge_options = [(''$replace_vars'', YList [YStr ''ansible.inventories''])],
                   replace_vars = {''ansible.inventories''}, cur_attr_name = [],
                   attr_name_stack = []\<rparr>) \<and>
        inventories (ansible r) = [Path ''/'' [''b'']])"
proof -
  have h: "AttrMerger_init [(''$replace_vars'', YList [YStr ''ansible.inventories''])]
     = Inr \<lparr>merge_options = [(''$replace_vars'', YList [YStr ''ansible.inventories''])],
            replace_vars = {''ansible.inventories''}, cur_attr_name = [], attr_name_stack = []\<rparr>"
    by (simp add: AttrMerger_init_def bindE_def REPLACE_VARS_MERGE_ACTION_def)
  show ?thesis
    using h replace_policy_inventories [OF h,
        of "MainConfig_default\<lparr>ansible := AnsibleConfig_default\<lparr>inventories := [Path ''/'' [''a'']]\<rparr>\<rparr>"
           "MainConfig_default\<lparr>ansible := AnsibleConfig_default\<lparr>inventories := [Path ''/'' [''b'']]\<rparr>\<rparr>"]
    by (simp add: MainConfig_default_def AnsibleConfig_default_def)
qed

text \<open>
  Claim C4, as the code has it. Merging never raises and assigns the overlay's value to
  each of the five scalar fields, for every merger state: also when the overlay's value
  is absent.
\<close>

theorem merge_scalars_overwrite:
  "\<exists>r. MainConfig_merge base overlay am = Inr (r, am) \<and>
     config_file (ansible r) = config_file (ansible overlay) \<and>
     private_key_file (ansible r) = private_key_file (ansible overlay) \<and>
     user (ansible r) = user (ansible overlay) \<and>
     vault_encrypt_identity (ansible r) = vault_encrypt_identity (ansible overlay) \<and>
     log_path (ansible r) = log_path (ansible overlay)"
  unfolding MainConfig_merge_eq AnsibleConfig_merge_eq bindE_def
  by simp

text \<open>
  Claim C4 as stated fails: a base user is not kept when the overlay has none.
\<close>

theorem merge_scalar_absent_counterexample:
  "(case bindE (AttrMerger_init [])
           (MainConfig_merge
              (MainConfig_default\<lparr>ansible := AnsibleConfig_default\<lparr>user := Some ''alice''\<rparr>\<rparr>)
              MainConfig_default) of
      Inl e \<Rightarrow> False
    | Inr (r, am) \<Rightarrow>
        user (ansible MainConfig_default) = None \<and> user (ansible r) = None \<and>
        user (ansible r) \<noteq> Some ''alice'')"
  unfolding MainConfig_merge_eq AnsibleConfig_merge_eq
  by (simp add: AttrMerger_init_def bindE_def MainConfig_default_def AnsibleConfig_default_def)

section \<open>Properties of the schema\<close>

lemma split_sep_no_sep: "sep \<notin> set u \<Longrightarrow> split_sep sep u = [u]"
  by (induction u) auto

lemma split_sep_append:
  "sep \<notin> set u \<Longrightarrow> split_sep sep (u @ sep # rest) = u # split_sep sep rest"
  by (induction u) auto

lemma split_join_sep:
  "list_all (\<lambda>x. sep \<notin> set x) ns \<Longrightarrow> ns \<noteq> [] \<Longrightarrow> split_sep sep (join_sep sep ns) = ns"
proof (induction sep ns rule: join_sep.induct)
  case (1 sep)
  then show ?case by simp
next
  case (2 sep u)
  then show ?case by (simp add: split_sep_no_sep)
next
  case (3 sep u v ns)
  then show ?case by (simp add: split_sep_append)
qed

lemma filter_wf_names:
  "list_all wf_name ns \<Longrightarrow> filter (\<lambda>x. x \<noteq> [] \<and> x \<noteq> ''.'') ns = ns"
  by (induction ns) (auto simp: wf_name_def)

lemma wf_names_no_sep: "list_all wf_name ns \<Longrightarrow> list_all (\<lambda>x. CHR ''/'' \<notin> set x) ns"
  by (induction ns) (auto simp: wf_name_def)

lemma parse_names_join:
  "list_all wf_name ns \<Longrightarrow>
     filter (\<lambda>x. x \<noteq> [] \<and> x \<noteq> ''.'') (split_sep CHR ''/'' (join_sep CHR ''/'' ns)) = ns"
proof (cases ns)
  case Nil
  then show ?thesis by simp
next
  case (Cons a list)
  assume wf: "list_all wf_name ns"
  have "split_sep CHR ''/'' (join_sep CHR ''/'' ns) = ns"
    using wf Cons wf_names_no_sep [OF wf] by (intro split_join_sep) auto
  then show ?thesis using wf by (simp add: filter_wf_names)
qed

lemma hd_join_sep:
  "list_all wf_name ns \<Longrightarrow> ns \<noteq> [] \<Longrightarrow>
     join_sep CHR ''/'' ns \<noteq> [] \<and> hd (join_sep CHR ''/'' ns) = hd (hd ns) \<and> hd (hd ns) \<noteq> CHR ''/''"
proof (induction "CHR ''/''" ns rule: join_sep.induct)
  case 1
  then show ?case by simp
next
  case (2 u)
  then show ?case by (cases u) (auto simp: wf_name_def)
next
  case (3 u v ns)
  then show ?case by (cases u) (auto simp: wf_name_def)
qed

lemma dropWhile_join_sep:
  "list_all wf_name ns \<Longrightarrow>
     dropWhile (\<lambda>c. c = CHR ''/'') (join_sep CHR ''/'' ns) = join_sep CHR ''/'' ns"
proof (cases ns)
  case Nil
  then show ?thesis by simp
next
  case (Cons a list)
  assume wf: "list_all wf_name ns"
  from hd_join_sep [OF wf] Cons
  have "join_sep CHR ''/'' ns \<noteq> []" and "hd (join_sep CHR ''/'' ns) \<noteq> CHR ''/''" by auto
  then show ?thesis by (cases "join_sep CHR ''/'' ns") auto
qed

lemma splitroot_relative:
  "list_all wf_name ns \<Longrightarrow> ns \<noteq> [] \<Longrightarrow> splitroot (join_sep CHR ''/'' ns) = []"
  using hd_join_sep [of ns] by (simp add: splitroot_def)

lemma splitroot_slash:
  "list_all wf_name ns \<Longrightarrow> splitroot (CHR ''/'' # join_sep CHR ''/'' ns) = ''/''"
  by (simp add: splitroot_def dropWhile_join_sep)

lemma splitroot_two_slashes:
  "list_all wf_name ns \<Longrightarrow> splitroot (CHR ''/'' # CHR ''/'' # join_sep CHR ''/'' ns) = ''//''"
  by (simp add: splitroot_def dropWhile_join_sep)

lemma parse_str_path: "wf_path p \<Longrightarrow> parse_path (str_path p) = p"
proof -
  assume wf: "wf_path p"
  obtain r ns where p: "p = Path r ns" by (cases p)
  from wf p have ns: "list_all wf_name ns" and r: "r = [] \<or> r = ''/'' \<or> r = ''//''"
    by (auto simp: wf_path_def)
  from r consider "r = []" "ns = []" | "r = []" "ns \<noteq> []" | "r = ''/''" | "r = ''//''" by blast
  then show ?thesis
  proof cases
    case 1
    then show ?thesis by (simp add: p str_path_def parse_path_def splitroot_def)
  next
    case 2
    then show ?thesis
      using ns by (simp add: p str_path_def parse_path_def splitroot_relative parse_names_join)
  next
    case 3
    then show ?thesis
      using ns by (simp add: p str_path_def parse_path_def splitroot_slash parse_names_join)
  next
    case 4
    then show ?thesis
      using ns by (simp add: p str_path_def parse_path_def splitroot_two_slashes parse_names_join)
  qed
qed

lemma split_sep_pieces: "list_all (\<lambda>x. sep \<notin> set x) (split_sep sep s)"
  by (induction s) (auto split: list.splits)

lemma wf_parse_path: "wf_path (parse_path s)"
proof -
  have "list_all wf_name (filter (\<lambda>x. x \<noteq> [] \<and> x \<noteq> ''.'') (split_sep CHR ''/'' s))"
    using split_sep_pieces [of "CHR ''/''" s]
    by (induction "split_sep CHR ''/'' s" arbitrary: s) (auto simp: wf_name_def list_all_iff)
  then show ?thesis by (simp add: wf_path_def parse_path_def splitroot_def)
qed

lemma str_path_nonempty: "wf_path p \<Longrightarrow> str_path p \<noteq> []"
  using hd_join_sep [of "names p"]
  by (cases p) (auto simp: str_path_def wf_path_def)

lemma relative_to_join: "relative_to p base = Inr rel \<Longrightarrow> joinpath base rel = p"
proof -
  assume a: "relative_to p base = Inr rel"
  then have r: "root p = root base" and t: "take (length (names base)) (names p) = names base"
    and rel: "rel = Path [] (drop (length (names base)) (names p))"
    by (auto simp: relative_to_def split: if_splits)
  have "names base @ drop (length (names base)) (names p) = names p"
    using t by (metis append_take_drop_id)
  then show ?thesis using r rel by (cases p) (simp add: joinpath_def)
qed

lemma relative_to_wf: "wf_path p \<Longrightarrow> relative_to p base = Inr rel \<Longrightarrow> wf_path rel \<and> root rel = []"
  using set_drop_subset [of "length (names base)" "names p"]
  by (auto simp: relative_to_def wf_path_def list_all_iff split: if_splits)

lemma PathField_serialize_Some: "PathField_serialize ctx (Some p) = YStr (path_encoding ctx p)"
  by (simp add: PathField_serialize_def path_encoding_def split: sum.splits)

lemma parse_path_encoding:
  assumes "serialize_relative_paths ctx \<or> root (config_dir ctx) \<noteq> []"
      and "wf_path p" and "lies_under p (config_dir ctx)"
  shows "joinpath (config_dir ctx) (parse_path (path_encoding ctx p)) = p"
proof -
  from assms(3) obtain rel where rel: "relative_to p (config_dir ctx) = Inr rel"
    by (auto simp: lies_under_def split: sum.splits)
  show ?thesis
  proof (cases "serialize_relative_paths ctx")
    case True
    then show ?thesis
      using rel relative_to_wf [OF assms(2) rel] relative_to_join [OF rel]
      by (simp add: path_encoding_def parse_str_path)
  next
    case False
    with assms(1) have "root (config_dir ctx) \<noteq> []" by simp
    moreover from rel have "root p = root (config_dir ctx)"
      by (auto simp: relative_to_def split: if_splits)
    ultimately show ?thesis
      using False assms(2) by (simp add: path_encoding_def parse_str_path joinpath_def)
  qed
qed

lemma PathField_round_trip:
  assumes "serialize_relative_paths ctx \<or> root (config_dir ctx) \<noteq> []"
      and "path_round_trips w ctx p"
  shows "PathField_deserialize w ctx (PathField_serialize ctx (Some p)) = Inr p"
  using assms parse_path_encoding [of ctx p]
  by (simp add: PathField_serialize_Some PathField_deserialize_def bindE_def path_round_trips_def)

lemma traverse_map_Inr:
  "list_all (\<lambda>x. f (g x) = Inr x) xs \<Longrightarrow> traverse f (map g xs) = Inr xs"
  by (induction xs) (auto simp: bindE_def)

lemma PathField_list_round_trip:
  assumes "serialize_relative_paths ctx \<or> root (config_dir ctx) \<noteq> []"
      and "list_all (path_round_trips w ctx) ps"
  shows "List_deserialize (PathField_deserialize w ctx)
           (YList (map (\<lambda>p. PathField_serialize ctx (Some p)) ps)) = Inr ps"
proof -
  have "list_all (\<lambda>p. Field_deserialize_required (PathField_deserialize w ctx)
                        (PathField_serialize ctx (Some p)) = Inr p) ps"
    using assms(2) PathField_round_trip [OF assms(1)]
    by (auto simp: list_all_iff Field_deserialize_required_def PathField_serialize_Some)
  then show ?thesis by (simp add: traverse_map_Inr)
qed

lemma takeWhile_at: "CHR ''@'' \<notin> set l \<Longrightarrow> takeWhile (\<lambda>c. c \<noteq> CHR ''@'') (l @ CHR ''@'' # r) = l"
  by (induction l) auto

lemma dropWhile_at:
  "CHR ''@'' \<notin> set l \<Longrightarrow> dropWhile (\<lambda>c. c \<noteq> CHR ''@'') (l @ CHR ''@'' # r) = CHR ''@'' # r"
  by (induction l) auto

lemma VaultId_of_str_id:
  "CHR ''@'' \<notin> set l \<Longrightarrow>
     VaultId_of_str w (l @ CHR ''@'' # src) = VaultId_finish w None l (SrcStr src) True"
  by (simp add: VaultId_of_str_def takeWhile_at dropWhile_at)

lemma VaultIdField_serialize_eq:
  assumes "source_is_path v" and "str_path (parse_path (source v)) = source v"
      and "lies_under (parse_path (source v)) (config_dir ctx)"
  shows "VaultIdField_serialize w ctx v
           = YStr (label v @ CHR ''@'' # path_encoding ctx (parse_path (source v)))"
proof -
  from assms(3) obtain rel where rel: "relative_to (parse_path (source v)) (config_dir ctx) = Inr rel"
    by (auto simp: lies_under_def split: sum.splits)
  show ?thesis
    using assms(1,2) rel
    by (simp add: VaultIdField_serialize_def VaultId_relative_to_def source_path_def
        VaultId_finish_def VaultId_id_def path_encoding_def)
qed

lemma VaultIdField_serialize_no_path:
  "\<not> source_is_path v \<Longrightarrow> VaultIdField_serialize w ctx v = YStr (label v @ CHR ''@'' # source v)"
  by (auto simp: VaultIdField_serialize_def VaultId_relative_to_def source_path_def
      VaultId_copy_def VaultId_finish_def VaultId_id_def source_is_path_def)

lemma VaultIdField_round_trip:
  assumes c: "serialize_relative_paths ctx \<or> root (config_dir ctx) \<noteq> []"
      and v: "vault_id_round_trips w ctx v"
  shows "VaultIdField_deserialize w ctx (VaultIdField_serialize w ctx v) = Inr v"
proof (cases "source_is_path v")
  case False
  from v have l: "CHR ''@'' \<notin> set (label v)" by (simp add: vault_id_round_trips_def)
  have "VaultId_finish w None (label v) (SrcStr (source v)) True = v"
    using False by (auto simp: VaultId_finish_def source_is_path_def)
  then show ?thesis
    using False l
    by (simp add: VaultIdField_serialize_no_path VaultIdField_deserialize_def bindE_def
        VaultId_of_str_id source_path_def)
next
  case True
  define sp where "sp = parse_path (source v)"
  define enc where "enc = path_encoding ctx sp"
  from v True have l: "CHR ''@'' \<notin> set (label v)"
    and norm: "str_path sp = source v"
    and under: "lies_under sp (config_dir ctx)"
    and np: "enc \<noteq> ''prompt''"
    and ar: "auto_realpath w enc None True = enc"
    and eu: "expanduser w enc = enc"
    by (simp_all add: vault_id_round_trips_def sp_def enc_def)
  have wf: "wf_path sp" by (simp add: sp_def wf_parse_path)
  from under obtain rel where rel: "relative_to sp (config_dir ctx) = Inr rel"
    by (auto simp: lies_under_def split: sum.splits)
  have enc_str: "\<exists>q. wf_path q \<and> enc = str_path q"
    using wf rel relative_to_wf [OF wf rel] by (auto simp: enc_def path_encoding_def)
  then obtain q where q: "wf_path q" "enc = str_path q" by blast
  have ne: "enc \<noteq> []" using q str_path_nonempty by simp
  have fin: "VaultId_finish w None (label v) (SrcStr enc) True = \<lparr>label = label v, source = enc\<rparr>"
    using ne np ar by (simp add: VaultId_finish_def)
  have sp': "source_path \<lparr>label = label v, source = enc\<rparr> = Some (parse_path enc)"
    using ne np by (simp add: source_path_def source_is_path_def)
  have rt: "str_path (parse_path enc) = enc"
    using q by (simp add: parse_str_path)
  have join: "joinpath (config_dir ctx) (parse_path enc) = sp"
    unfolding enc_def using c wf under by (rule parse_path_encoding)
  have ser: "VaultIdField_serialize w ctx v = YStr (label v @ CHR ''@'' # enc)"
    unfolding enc_def sp_def using True norm under
    by (intro VaultIdField_serialize_eq) (simp_all add: sp_def)
  show ?thesis
    unfolding ser
    using l norm
    by (simp add: VaultIdField_deserialize_def bindE_def VaultId_of_str_id fin sp' rt eu join)
qed

lemma map_of_remove_none_values:
  "distinct (map fst data) \<Longrightarrow>
     map_of (remove_none_values data) k =
       (case map_of data k of None \<Rightarrow> None | Some v \<Rightarrow> if v = YNone then None else Some v)"
proof (induction data)
  case Nil
  then show ?case by (simp add: remove_none_values_def)
next
  case (Cons a data)
  obtain k' v' where a: "a = (k', v')" by (cases a)
  from Cons.prems have nk: "k' \<notin> fst ` set data" and d: "distinct (map fst data)"
    by (auto simp: a)
  have none: "map_of data k' = None" using nk by (simp add: map_of_eq_None_iff)
  show ?case
    using Cons.IH [OF d] none
    by (auto simp: a remove_none_values_def split: option.splits)
qed

lemma distinct_AnsibleConfigSchema_fields:
  "distinct (map fst (AnsibleConfigSchema_fields w ctx s))"
  by (simp add: AnsibleConfigSchema_fields_def)

lemma load_field_dump:
  "map_of (AnsibleConfigSchema_fields w ctx s) (YStr name) = Some v \<Longrightarrow>
     load_field (AnsibleConfigSchema_dump w ctx s) name deser =
       (if v = YNone then Inr None else bindE (deser v) (\<lambda>x. Inr (Some x)))"
  by (simp add: load_field_def AnsibleConfigSchema_dump_def
      map_of_remove_none_values [OF distinct_AnsibleConfigSchema_fields])

lemma known_fields_dump:
  "\<not> unknown_field AnsibleConfigSchema_names (AnsibleConfigSchema_dump w ctx s)"
proof -
  have "set (map fst (AnsibleConfigSchema_dump w ctx s))
          \<subseteq> set (map fst (AnsibleConfigSchema_fields w ctx s))"
    by (auto simp: AnsibleConfigSchema_dump_def remove_none_values_def)
  also have "\<dots> = set (map YStr AnsibleConfigSchema_names)"
    by (simp add: AnsibleConfigSchema_fields_def AnsibleConfigSchema_names_def)
  finally show ?thesis
    unfolding unknown_field_def list_ex_iff by blast
qed

lemma load_optional_path:
  assumes "serialize_relative_paths ctx \<or> root (config_dir ctx) \<noteq> []"
      and "case po of None \<Rightarrow> True | Some p \<Rightarrow> path_round_trips w ctx p"
      and "map_of (AnsibleConfigSchema_fields w ctx s) (YStr name) = Some (PathField_serialize ctx po)"
  shows "load_field (AnsibleConfigSchema_dump w ctx s) name
           (Field_deserialize True (PathField_deserialize w ctx)) = Inr (map_option Some po)"
proof (cases po)
  case None
  then show ?thesis
    using assms(3) by (simp add: load_field_dump PathField_serialize_def)
next
  case (Some p)
  then show ?thesis
    using assms(2,3) PathField_round_trip [OF assms(1), of w p]
    by (simp add: load_field_dump Field_deserialize_def bindE_def PathField_serialize_Some)
qed

lemma load_path_list:
  assumes "serialize_relative_paths ctx \<or> root (config_dir ctx) \<noteq> []"
      and "list_all (path_round_trips w ctx) ps"
      and "map_of (AnsibleConfigSchema_fields w ctx s) (YStr name)
             = Some (YList (map (\<lambda>p. PathField_serialize ctx (Some p)) ps))"
  shows "load_field (AnsibleConfigSchema_dump w ctx s) name
           (Field_deserialize_required (List_deserialize (PathField_deserialize w ctx)))
         = Inr (Some ps)"
  using assms(3) PathField_list_round_trip [OF assms(1,2)]
  by (simp add: load_field_dump Field_deserialize_required_def bindE_def)

lemma load_vault_ids:
  assumes "serialize_relative_paths ctx \<or> root (config_dir ctx) \<noteq> []"
      and "list_all (vault_id_round_trips w ctx) vs"
      and "map_of (AnsibleConfigSchema_fields w ctx s) (YStr name)
             = Some (YList (map (VaultIdField_serialize w ctx) vs))"
  shows "load_field (AnsibleConfigSchema_dump w ctx s) name
           (Field_deserialize_required (List_deserialize (VaultIdField_deserialize w ctx)))
         = Inr (Some vs)"
proof -
  have ne: "VaultIdField_serialize w ctx v \<noteq> YNone" for v
    by (simp add: VaultIdField_serialize_def split: sum.splits)
  have "list_all (\<lambda>v. Field_deserialize_required (VaultIdField_deserialize w ctx)
                        (VaultIdField_serialize w ctx v) = Inr v) vs"
    using assms(2) VaultIdField_round_trip [OF assms(1)] ne
    by (auto simp: list_all_iff Field_deserialize_required_def)
  then have "List_deserialize (VaultIdField_deserialize w ctx)
               (YList (map (VaultIdField_serialize w ctx) vs)) = Inr vs"
    by (simp add: traverse_map_Inr)
  then show ?thesis
    using assms(3) by (simp add: load_field_dump Field_deserialize_required_def bindE_def)
qed

lemma load_optional_string:
  assumes "map_of (AnsibleConfigSchema_fields w ctx s) (YStr name) = Some (String_serialize so)"
  shows "load_field (AnsibleConfigSchema_dump w ctx s) name
           (Field_deserialize True String_deserialize) = Inr (map_option Some so)"
  using assms
  by (cases so) (simp_all add: load_field_dump String_serialize_def Field_deserialize_def bindE_def)

lemma dict_set_new: "k \<notin> fst ` set d \<Longrightarrow> dict_set d k v = d @ [(k, v)]"
  by (induction d) auto

lemma foldl_dict_set_distinct:
  "distinct (map fst (acc @ items)) \<Longrightarrow>
     foldl (\<lambda>d (k, v). dict_set d k v) acc items = acc @ items"
proof (induction items arbitrary: acc)
  case Nil
  then show ?case by simp
next
  case (Cons a items)
  obtain k v where a: "a = (k, v)" by (cases a)
  from Cons.prems have "k \<notin> fst ` set acc" by (auto simp: a)
  then have step: "dict_set acc k v = acc @ [(k, v)]" by (rule dict_set_new)
  from Cons.prems have "distinct (map fst ((acc @ [(k, v)]) @ items))" by (simp add: a)
  from Cons.IH [OF this] show ?case by (simp add: a step)
qed

lemma dict_of_items_distinct: "distinct (map fst items) \<Longrightarrow> dict_of_items items = items"
  using foldl_dict_set_distinct [of "[]" items] by (simp add: dict_of_items_def)

lemma Dict_round_trip:
  assumes a: "list_all (\<lambda>(k, v). is_PStr v) env" and d: "distinct (map fst env)"
  shows "Dict_deserialize (Dict_serialize env) = Inr env"
proof -
  have "list_all (\<lambda>x. (\<lambda>(k, v).
          bindE (Field_deserialize_required String_deserialize k) (\<lambda>k'.
          bindE (Field_deserialize_required String_deserialize v) (\<lambda>v'. Inr (k', PStr v'))))
            ((\<lambda>(k, v). (YStr k, String_serialize_any v)) x) = Inr x) env"
    using a
  proof (induction env)
    case Nil
    then show ?case by simp
  next
    case (Cons a env)
    obtain k v where kv: "a = (k, v)" by (cases a)
    with Cons.prems obtain t where t: "v = PStr t" by (cases v) auto
    show ?case
      using Cons by (simp add: kv t Field_deserialize_required_def bindE_def)
  qed
  then have tr: "traverse (\<lambda>(k, v).
          bindE (Field_deserialize_required String_deserialize k) (\<lambda>k'.
          bindE (Field_deserialize_required String_deserialize v) (\<lambda>v'. Inr (k', PStr v'))))
        (map (\<lambda>(k, v). (YStr k, String_serialize_any v)) env) = Inr env"
    by (rule traverse_map_Inr)
  have "map fst (map (\<lambda>(k, v). (YStr k, String_serialize_any v)) env) = map YStr (map fst env)"
    by (induction env) auto
  then have "distinct (map fst (map (\<lambda>(k, v). (YStr k, String_serialize_any v)) env))"
    using d by (simp add: distinct_map inj_on_def)
  then have ser: "Dict_serialize env = YDict (map (\<lambda>(k, v). (YStr k, String_serialize_any v)) env)"
    by (simp add: Dict_serialize_def dict_of_items_distinct)
  show ?thesis
    unfolding ser using tr d by (simp add: bindE_def dict_of_items_distinct)
qed

lemma load_env_vars:
  assumes "list_all (\<lambda>(k, v). is_PStr v) env" and "distinct (map fst env)"
      and "map_of (AnsibleConfigSchema_fields w ctx s) (YStr name) = Some (Dict_serialize env)"
  shows "load_field (AnsibleConfigSchema_dump w ctx s) name
           (Field_deserialize_required Dict_deserialize) = Inr (Some env)"
  using assms(3) Dict_round_trip [OF assms(1,2)]
  by (simp add: load_field_dump Field_deserialize_required_def bindE_def Dict_serialize_def)

lemma case_option_id: "case_option None ((\<lambda>v. v) \<circ> Some) x = x"
  by (cases x) simp_all

lemma deserialize_dump:
  assumes c: "serialize_relative_paths ctx \<or> root (config_dir ctx) \<noteq> []"
      and s: "settings_round_trip w ctx s"
  shows "AnsibleConfigSchema_deserialize w ctx (YDict (AnsibleConfigSchema_dump w ctx s)) =
           Inr \<lparr>d_config_file = map_option Some (config_file s),
                d_inventories = Some (inventories s),
                d_vault_ids = Some (vault_ids s),
                d_vault_password_files = Some (vault_password_files s),
                d_user_scripts = Some (user_scripts s),
                d_vars_files = Some (vars_files s),
                d_vault_files = Some (vault_files s),
                d_private_key_file = map_option Some (private_key_file s),
                d_user = map_option Some (user s),
                d_vault_encrypt_identity = map_option Some (vault_encrypt_identity s),
                d_log_path = map_option Some (log_path s),
                d_env_vars = Some (env_vars s)\<rparr>"
proof -
  note fs = AnsibleConfigSchema_fields_def
  from s have
    h1: "case config_file s of None \<Rightarrow> True | Some p \<Rightarrow> path_round_trips w ctx p" and
    h2: "list_all (path_round_trips w ctx) (inventories s)" and
    h3: "list_all (vault_id_round_trips w ctx) (vault_ids s)" and
    h4: "list_all (path_round_trips w ctx) (vault_password_files s)" and
    h5: "list_all (path_round_trips w ctx) (user_scripts s)" and
    h6: "list_all (path_round_trips w ctx) (vars_files s)" and
    h7: "list_all (path_round_trips w ctx) (vault_files s)" and
    h8: "case private_key_file s of None \<Rightarrow> True | Some p \<Rightarrow> path_round_trips w ctx p" and
    h11: "case log_path s of None \<Rightarrow> True | Some p \<Rightarrow> path_round_trips w ctx p" and
    h12: "list_all (\<lambda>(k, v). is_PStr v) (env_vars s)" and
    h13: "distinct (map fst (env_vars s))"
    by (simp_all add: settings_round_trip_def)
  have f1: "load_field (AnsibleConfigSchema_dump w ctx s) ''config_file''
              (Field_deserialize True (PathField_deserialize w ctx))
            = Inr (map_option Some (config_file s))"
    by (rule load_optional_path [OF c h1]) (simp add: fs)
  have f2: "load_field (AnsibleConfigSchema_dump w ctx s) ''inventories''
              (Field_deserialize_required (List_deserialize (PathField_deserialize w ctx)))
            = Inr (Some (inventories s))"
    by (rule load_path_list [OF c h2]) (simp add: fs)
  have f3: "load_field (AnsibleConfigSchema_dump w ctx s) ''vault_ids''
              (Field_deserialize_required (List_deserialize (VaultIdField_deserialize w ctx)))
            = Inr (Some (vault_ids s))"
    by (rule load_vault_ids [OF c h3]) (simp add: fs)
  have f4: "load_field (AnsibleConfigSchema_dump w ctx s) ''vault_password_files''
              (Field_deserialize_required (List_deserialize (PathField_deserialize w ctx)))
            = Inr (Some (vault_password_files s))"
    by (rule load_path_list [OF c h4]) (simp add: fs)
  have f5: "load_field (AnsibleConfigSchema_dump w ctx s) ''user_scripts''
              (Field_deserialize_required (List_deserialize (PathField_deserialize w ctx)))
            = Inr (Some (user_scripts s))"
    by (rule load_path_list [OF c h5]) (simp add: fs)
  have f6: "load_field (AnsibleConfigSchema_dump w ctx s) ''vars_files''
              (Field_deserialize_required (List_deserialize (PathField_deserialize w ctx)))
            = Inr (Some (vars_files s))"
    by (rule load_path_list [OF c h6]) (simp add: fs)
  have f7: "load_field (AnsibleConfigSchema_dump w ctx s) ''vault_files''
              (Field_deserialize_required (List_deserialize (PathField_deserialize w ctx)))
            = Inr (Some (vault_files s))"
    by (rule load_path_list [OF c h7]) (simp add: fs)
  have f8: "load_field (AnsibleConfigSchema_dump w ctx s) ''private_key_file''
              (Field_deserialize True (PathField_deserialize w ctx))
            = Inr (map_option Some (private_key_file s))"
    by (rule load_optional_path [OF c h8]) (simp add: fs)
  have f9: "load_field (AnsibleConfigSchema_dump w ctx s) ''user''
              (Field_deserialize True String_deserialize) = Inr (map_option Some (user s))"
    by (rule load_optional_string) (simp add: fs)
  have f10: "load_field (AnsibleConfigSchema_dump w ctx s) ''vault_encrypt_identity''
              (Field_deserialize True String_deserialize)
            = Inr (map_option Some (vault_encrypt_identity s))"
    by (rule load_optional_string) (simp add: fs)
  have f11: "load_field (AnsibleConfigSchema_dump w ctx s) ''log_path''
              (Field_deserialize True (PathField_deserialize w ctx))
            = Inr (map_option Some (log_path s))"
    by (rule load_optional_path [OF c h11]) (simp add: fs)
  have f12: "load_field (AnsibleConfigSchema_dump w ctx s) ''env_vars''
              (Field_deserialize_required Dict_deserialize) = Inr (Some (env_vars s))"
    by (rule load_env_vars [OF h12 h13]) (simp add: fs)
  show ?thesis
    unfolding AnsibleConfigSchema_deserialize_def yval.case f1 f2 f3 f4 f5 f6 f7 f8 f9 f10 f11 f12
      bindE_def sum.case
    by (simp add: known_fields_dump)
qed

text \<open>
  Claim C1, as the code has it. Loading what was dumped gives the settings back, for a
  context that builds models and either writes relative paths or has an absolute config
  directory, when: every path is a pathlib value that lies under the config directory
  and whose dumped form home-directory expansion leaves alone; every vault identity has
  a label without \<^verbatim>\<open>@\<close> and a source that is empty, \<^verbatim>\<open>prompt\<close>, or a normalised path string
  under the config directory whose dumped form is not \<^verbatim>\<open>prompt\<close>, names no existing file
  and is left alone by home-directory expansion; and every environment value is a
  string.
\<close>

theorem decode_encode_round_trip:
  assumes "context_round_trips ctx" and "settings_round_trip w ctx s"
  shows "AnsibleConfigSchema_load w ctx (YDict (AnsibleConfigSchema_dump w ctx s)) = Inr (Model s)"
proof -
  from assms(1) have c: "serialize_relative_paths ctx \<or> root (config_dir ctx) \<noteq> []"
    and m: "create_model ctx"
    by (simp_all add: context_round_trips_def)
  show ?thesis
    unfolding AnsibleConfigSchema_load_def deserialize_dump [OF c assms(2)] bindE_def sum.case
    using m by (simp add: AnsibleConfig_of_data_def case_option_id)
qed

section \<open>Evaluating the schema\<close>

lemma example_dir: "config_dir example_context = Path ''/'' [''etc'']"
  by (simp add: example_context_def config_dir_def parent_def)

lemma parse_example_vault_source: "parse_path ''/etc/vault_pw'' = Path ''/'' [''etc'', ''vault_pw'']"
  by (simp add: parse_path_def splitroot_def)

lemma str_example_vault_source: "str_path (Path ''/'' [''etc'', ''vault_pw'']) = ''/etc/vault_pw''"
  by (simp add: str_path_def)

lemma expanduser_example_plain: "expanduser example_world ''vault_pw'' = ''vault_pw''"
  by (simp add: expanduser_def)

lemma expanduser_example_tilde: "expanduser example_world ''~'' = ''/home/u''"
  by (simp add: expanduser_def example_world_def rstrip_sep_def)

lemma example_flags: "serialize_relative_paths example_context" "create_model example_context"
  by (simp_all add: example_context_def)

lemma encoding_example_inventory: "path_encoding example_context (Path ''/'' [''etc'', ''inv'', ''hosts'']) = ''inv/hosts''"
  by (simp add: path_encoding_def example_dir relative_to_def str_path_def example_flags)

lemma encoding_example_tilde: "path_encoding example_context (Path ''/'' [''etc'', ''~'']) = ''~''"
  by (simp add: path_encoding_def example_dir relative_to_def str_path_def example_flags)

lemma PathField_serialize_None: "PathField_serialize ctx None = YNone"
  by (simp add: PathField_serialize_def)

lemma tilde_dump:
  "AnsibleConfigSchema_dump example_world example_context tilde_settings =
     [(YStr ''inventories'', YList [YStr ''~'']),
      (YStr ''vault_ids'', YList []),
      (YStr ''vault_password_files'', YList []),
      (YStr ''user_scripts'', YList []),
      (YStr ''vars_files'', YList []),
      (YStr ''vault_files'', YList []),
      (YStr ''env_vars'', YDict [])]"
  by (simp add: AnsibleConfigSchema_dump_def AnsibleConfigSchema_fields_def remove_none_values_def
      tilde_settings_def AnsibleConfig_default_def PathField_serialize_Some encoding_example_tilde
      PathField_serialize_None String_serialize_def Dict_serialize_def dict_of_items_def)

lemma tilde_field:
  "PathField_deserialize example_world example_context (YStr ''~'') = Inr (Path ''/'' [''home'', ''u''])"
  by (simp add: PathField_deserialize_def bindE_def expanduser_example_tilde parse_path_def splitroot_def joinpath_def)

lemma tilde_load:
  "AnsibleConfigSchema_load example_world example_context
     (YDict (AnsibleConfigSchema_dump example_world example_context tilde_settings)) =
   Inr (Model (AnsibleConfig_default\<lparr>inventories := [Path ''/'' [''home'', ''u'']]\<rparr>))"
  unfolding tilde_dump
  by (simp add: AnsibleConfigSchema_load_def AnsibleConfigSchema_deserialize_def load_field_def
      bindE_def Field_deserialize_required_def tilde_field unknown_field_def
      AnsibleConfigSchema_names_def AnsibleConfig_of_data_def AnsibleConfig_default_def
      example_flags dict_of_items_def)

text \<open>
  Claim C1 as stated fails: the inventory \<^verbatim>\<open>/etc/~\<close> lies under the config directory
  \<^verbatim>\<open>/etc\<close>, is dumped as \<^verbatim>\<open>~\<close>, and is loaded as the home directory \<^verbatim>\<open>/home/u\<close>.
\<close>

theorem decode_encode_tilde_counterexample:
  "wf_path (Path ''/'' [''etc'', ''~'']) \<and>
   lies_under (Path ''/'' [''etc'', ''~'']) (config_dir example_context) \<and>
   inventories tilde_settings = [Path ''/'' [''etc'', ''~'']] \<and>
   AnsibleConfigSchema_load example_world example_context
     (YDict (AnsibleConfigSchema_dump example_world example_context tilde_settings)) =
   Inr (Model (AnsibleConfig_default\<lparr>inventories := [Path ''/'' [''home'', ''u'']]\<rparr>)) \<and>
   AnsibleConfigSchema_load example_world example_context
     (YDict (AnsibleConfigSchema_dump example_world example_context tilde_settings)) \<noteq>
   Inr (Model tilde_settings)"
  unfolding tilde_load
  by (simp add: wf_path_def wf_name_def lies_under_def relative_to_def example_dir
      tilde_settings_def AnsibleConfig_default_def)

lemma example_context_round_trips: "context_round_trips example_context"
  by (simp add: context_round_trips_def example_flags)

lemma example_path1: "path_round_trips example_world example_context (Path ''/'' [''etc'', ''ansible.cfg''])"
  by (simp add: path_round_trips_def wf_path_def wf_name_def lies_under_def relative_to_def
      example_dir path_encoding_def example_flags str_path_def expanduser_def)

lemma example_path2:
  "path_round_trips example_world example_context (Path ''/'' [''etc'', ''inv'', ''hosts''])"
  by (simp add: path_round_trips_def wf_path_def wf_name_def lies_under_def relative_to_def
      example_dir path_encoding_def example_flags str_path_def expanduser_def)

lemma example_vault_id:
  "vault_id_round_trips example_world example_context \<lparr>label = ''prod'', source = ''/etc/vault_pw''\<rparr>"
proof -
  have enc: "path_encoding example_context (Path ''/'' [''etc'', ''vault_pw'']) = ''vault_pw''"
    by (simp add: path_encoding_def example_dir relative_to_def str_path_def example_flags)
  have ar: "auto_realpath example_world ''vault_pw'' None True = ''vault_pw''"
    by (simp add: auto_realpath_def os_path_isabs_def os_path_exists_def example_world_def)
  show ?thesis
    by (simp add: vault_id_round_trips_def source_is_path_def parse_example_vault_source str_example_vault_source enc ar expanduser_example_plain lies_under_def
        relative_to_def example_dir)
qed

lemma example_settings_round_trip:
  "settings_round_trip example_world example_context example_settings"
  by (simp add: settings_round_trip_def example_settings_def AnsibleConfig_default_def
      example_path1 example_path2 example_vault_id)

text \<open>
  The round trip of claim C1 on the example settings, whose vault identity
  \<^verbatim>\<open>prod@/etc/vault_pw\<close> is dumped as \<^verbatim>\<open>prod@vault_pw\<close>.
\<close>

theorem decode_encode_round_trip_witness:
  "context_round_trips example_context \<and>
   settings_round_trip example_world example_context example_settings \<and>
   AnsibleConfigSchema_load example_world example_context
     (YDict (AnsibleConfigSchema_dump example_world example_context example_settings)) =
   Inr (Model example_settings)"
  using decode_encode_round_trip [OF example_context_round_trips example_settings_round_trip]
    example_context_round_trips example_settings_round_trip
  by simp

lemma remove_none_values_no_none: "YNone \<notin> snd ` set (remove_none_values data)"
  by (auto simp: remove_none_values_def)

lemma map_of_dump:
  "map_of (AnsibleConfigSchema_dump w ctx a) k =
     (case map_of (AnsibleConfigSchema_fields w ctx a) k of
        None \<Rightarrow> None
      | Some v \<Rightarrow> if v = YNone then None else Some v)"
  by (simp add: AnsibleConfigSchema_dump_def
      map_of_remove_none_values [OF distinct_AnsibleConfigSchema_fields])

lemma PathField_serialize_eq_None: "(PathField_serialize ctx po = YNone) = (po = None)"
  by (cases po) (simp_all add: PathField_serialize_None PathField_serialize_Some)

lemma String_serialize_eq_None: "(String_serialize so = YNone) = (so = None)"
  by (cases so) (simp_all add: String_serialize_def)

lemma Dict_serialize_not_None: "Dict_serialize env \<noteq> YNone"
  by (simp add: Dict_serialize_def)

text \<open>
  Claim C5, as the code has it. The mapping dumped for the settings has no key whose
  value is None: each of the five optional scalar fields is written exactly when it is
  set. The six list fields and \<^verbatim>\<open>env_vars\<close> are always written, also when they are empty;
  the main mapping always holds the key \<^verbatim>\<open>ansible\<close>.
\<close>

theorem dump_omits_none_only:
  "YNone \<notin> snd ` set (AnsibleConfigSchema_dump w ctx a) \<and>
   MainConfigSchema_dump w ctx m
     = YDict [(YStr ''ansible'', YDict (AnsibleConfigSchema_dump w ctx (ansible m)))] \<and>
   (map_of (AnsibleConfigSchema_dump w ctx a) (YStr ''config_file'') = None)
     = (config_file a = None) \<and>
   (map_of (AnsibleConfigSchema_dump w ctx a) (YStr ''private_key_file'') = None)
     = (private_key_file a = None) \<and>
   (map_of (AnsibleConfigSchema_dump w ctx a) (YStr ''user'') = None) = (user a = None) \<and>
   (map_of (AnsibleConfigSchema_dump w ctx a) (YStr ''vault_encrypt_identity'') = None)
     = (vault_encrypt_identity a = None) \<and>
   (map_of (AnsibleConfigSchema_dump w ctx a) (YStr ''log_path'') = None)
     = (log_path a = None) \<and>
   map_of (AnsibleConfigSchema_dump w ctx a) (YStr ''inventories'')
     = Some (YList (map (\<lambda>p. PathField_serialize ctx (Some p)) (inventories a))) \<and>
   map_of (AnsibleConfigSchema_dump w ctx a) (YStr ''vault_ids'')
     = Some (YList (map (VaultIdField_serialize w ctx) (vault_ids a))) \<and>
   map_of (AnsibleConfigSchema_dump w ctx a) (YStr ''vault_password_files'')
     = Some (YList (map (\<lambda>p. PathField_serialize ctx (Some p)) (vault_password_files a))) \<and>
   map_of (AnsibleConfigSchema_dump w ctx a) (YStr ''user_scripts'')
     = Some (YList (map (\<lambda>p. PathField_serialize ctx (Some p)) (user_scripts a))) \<and>
   map_of (AnsibleConfigSchema_dump w ctx a) (YStr ''vars_files'')
     = Some (YList (map (\<lambda>p. PathField_serialize ctx (Some p)) (vars_files a))) \<and>
   map_of (AnsibleConfigSchema_dump w ctx a) (YStr ''vault_files'')
     = Some (YList (map (\<lambda>p. PathField_serialize ctx (Some p)) (vault_files a))) \<and>
   map_of (AnsibleConfigSchema_dump w ctx a) (YStr ''env_vars'')
     = Some (Dict_serialize (env_vars a))"
proof -
  have 1: "YNone \<notin> snd ` set (AnsibleConfigSchema_dump w ctx a)"
    unfolding AnsibleConfigSchema_dump_def by (rule remove_none_values_no_none)
  have 2: "MainConfigSchema_dump w ctx m
     = YDict [(YStr ''ansible'', YDict (AnsibleConfigSchema_dump w ctx (ansible m)))]"
    by (simp add: MainConfigSchema_dump_def remove_none_values_def)
  show ?thesis
    unfolding map_of_dump
    using 1 2
    by (simp add: AnsibleConfigSchema_fields_def PathField_serialize_eq_None
        String_serialize_eq_None Dict_serialize_not_None)
qed

text \<open>
  Claim C5 as stated fails: the empty inventories and the empty \<^verbatim>\<open>env_vars\<close> of the
  default settings are written, as an empty list and an empty mapping.
\<close>

theorem dump_keeps_empty_counterexample:
  "inventories AnsibleConfig_default = [] \<and> env_vars AnsibleConfig_default = [] \<and>
   map_of (AnsibleConfigSchema_dump example_world example_context AnsibleConfig_default)
     (YStr ''inventories'') = Some (YList []) \<and>
   map_of (AnsibleConfigSchema_dump example_world example_context AnsibleConfig_default)
     (YStr ''env_vars'') = Some (YDict [])"
  unfolding map_of_dump
  by (simp add: AnsibleConfigSchema_fields_def AnsibleConfig_default_def Dict_serialize_def dict_of_items_def)

lemma root_parse_absolute: "os_path_isabs s \<Longrightarrow> root (parse_path s) \<noteq> []"
  by (simp add: os_path_isabs_def parse_path_def splitroot_def)

lemma joinpath_absolute: "os_path_isabs s \<Longrightarrow> joinpath base (parse_path s) = parse_path s"
  using root_parse_absolute [of s] by (simp add: joinpath_def)

text \<open>
  Claim C10. A raw path string that is absolute after home-directory expansion is loaded
  as the path of exactly that string, whatever the context's config directory is, and
  the load succeeds; so is the path source of a vault identity.
\<close>

theorem absolute_path_decoded_unchanged:
  "(os_path_isabs (expanduser w raw) \<longrightarrow>
      PathField_deserialize w ctx (YStr raw) = Inr (parse_path (expanduser w raw))) \<and>
   (source_path (VaultId_of_str w vid) = Some sp \<and> os_path_isabs (expanduser w (str_path sp)) \<longrightarrow>
      VaultIdField_deserialize w ctx (YStr vid) =
        Inr ((VaultId_of_str w vid)\<lparr>source := str_path (parse_path (expanduser w (str_path sp)))\<rparr>))"
  by (simp add: PathField_deserialize_def VaultIdField_deserialize_def bindE_def Let_def
      joinpath_absolute)

theorem absolute_path_decoded_unchanged_witness:
  "os_path_isabs (expanduser example_world ''~/keys/id_rsa'') \<and>
   PathField_deserialize example_world example_context (YStr ''~/keys/id_rsa'')
     = Inr (Path ''/'' [''home'', ''u'', ''keys'', ''id_rsa'']) \<and>
   source_path (VaultId_of_str example_world ''prod@/opt/vault_pw'')
     = Some (Path ''/'' [''opt'', ''vault_pw'']) \<and>
   os_path_isabs (expanduser example_world (str_path (Path ''/'' [''opt'', ''vault_pw'']))) \<and>
   VaultIdField_deserialize example_world example_context (YStr ''prod@/opt/vault_pw'')
     = Inr \<lparr>label = ''prod'', source = ''/opt/vault_pw''\<rparr>"
proof -
  have e1: "expanduser example_world ''~/keys/id_rsa'' = ''/home/u/keys/id_rsa''"
    by (simp add: expanduser_def example_world_def rstrip_sep_def)
  have p1: "parse_path ''/home/u/keys/id_rsa'' = Path ''/'' [''home'', ''u'', ''keys'', ''id_rsa'']"
    by (simp add: parse_path_def splitroot_def)
  have v: "VaultId_of_str example_world ''prod@/opt/vault_pw''
             = \<lparr>label = ''prod'', source = ''/opt/vault_pw''\<rparr>"
    by (simp add: VaultId_of_str_def VaultId_finish_def auto_realpath_def os_path_isabs_def
        os_path_exists_def example_world_def)
  have p2: "parse_path ''/opt/vault_pw'' = Path ''/'' [''opt'', ''vault_pw'']"
    by (simp add: parse_path_def splitroot_def)
  have s2: "str_path (Path ''/'' [''opt'', ''vault_pw'']) = ''/opt/vault_pw''"
    by (simp add: str_path_def)
  have e2: "expanduser example_world ''/opt/vault_pw'' = ''/opt/vault_pw''"
    by (simp add: expanduser_def)
  have sp: "source_path (VaultId_of_str example_world ''prod@/opt/vault_pw'')
              = Some (Path ''/'' [''opt'', ''vault_pw''])"
    by (simp add: v source_path_def source_is_path_def p2)
  have a1: "os_path_isabs (expanduser example_world ''~/keys/id_rsa'')"
    by (simp add: e1 os_path_isabs_def)
  have a2: "os_path_isabs (expanduser example_world (str_path (Path ''/'' [''opt'', ''vault_pw''])))"
    by (simp add: s2 e2 os_path_isabs_def)
  show ?thesis
    using absolute_path_decoded_unchanged [of example_world "''~/keys/id_rsa''"
        example_context "''prod@/opt/vault_pw''" "Path ''/'' [''opt'', ''vault_pw'']"]
      a1 a2 sp
    by (simp add: e1 p1 v s2 e2 p2)
qed

section \<open>Vault detection\<close>

text \<open>
  Claim C8. The magic prefix has 15 bytes. An existing file is classified as a vault
  exactly when its first 15 bytes are the magic prefix, so a file shorter than the
  prefix (an empty one too) is not a vault; a file that does not exist is not a vault.
\<close>

theorem is_vault_magic_prefix:
  "length ANSIBLE_VAULT_MAGIC = 15 \<and>
   (map_of (files w) filename = Some (File content) \<longrightarrow>
      is_vault w filename = Inr (take 15 content = ''$ANSIBLE_VAULT;'') \<and>
      (length content < 15 \<longrightarrow> is_vault w filename = Inr False)) \<and>
   (map_of (files w) filename = None \<longrightarrow> is_vault w filename = Inr False)"
proof -
  have len: "length ANSIBLE_VAULT_MAGIC = 15"
    by (simp add: ANSIBLE_VAULT_MAGIC_def)
  have magic: "''$ANSIBLE_VAULT;'' = ANSIBLE_VAULT_MAGIC"
    by (simp add: ANSIBLE_VAULT_MAGIC_def)
  have short: "take 15 content \<noteq> ANSIBLE_VAULT_MAGIC" if "length content < 15"
  proof
    assume "take 15 content = ANSIBLE_VAULT_MAGIC"
    then have "length (take 15 content) = length ANSIBLE_VAULT_MAGIC" by simp
    with that len show False by simp
  qed
  show ?thesis
    unfolding magic
    using short by (auto simp: is_vault_def os_path_exists_def len)
qed

theorem is_vault_magic_prefix_witness:
  "map_of (files vault_world) ''/etc/secrets.yml'' = Some (File ''$ANSIBLE_VAULT;1.1;AES256'') \<and>
   is_vault vault_world ''/etc/secrets.yml'' = Inr True \<and>
   map_of (files vault_world) ''/etc/short.yml'' = Some (File ''$ANSIBLE'') \<and>
   is_vault vault_world ''/etc/short.yml'' = Inr False \<and>
   map_of (files vault_world) ''/etc/empty.yml'' = Some (File []) \<and>
   is_vault vault_world ''/etc/empty.yml'' = Inr False \<and>
   map_of (files vault_world) ''/etc/plain.yml'' = Some (File ''ansible_become_pass: x'') \<and>
   is_vault vault_world ''/etc/plain.yml'' = Inr False \<and>
   map_of (files vault_world) ''/etc/missing.yml'' = None \<and>
   is_vault vault_world ''/etc/missing.yml'' = Inr False"
proof -
  have f: "files vault_world = [(''/etc/secrets.yml'', File ''$ANSIBLE_VAULT;1.1;AES256''),
                             (''/etc/short.yml'', File ''$ANSIBLE''),
                             (''/etc/empty.yml'', File []),
                             (''/etc/plain.yml'', File ''ansible_become_pass: x'')]"
    by (simp add: vault_world_def)
  have m1: "map_of (files vault_world) ''/etc/secrets.yml'' = Some (File ''$ANSIBLE_VAULT;1.1;AES256'')"
    and m2: "map_of (files vault_world) ''/etc/short.yml'' = Some (File ''$ANSIBLE'')"
    and m3: "map_of (files vault_world) ''/etc/empty.yml'' = Some (File [])"
    and m4: "map_of (files vault_world) ''/etc/plain.yml'' = Some (File ''ansible_become_pass: x'')"
    and m5: "map_of (files vault_world) ''/etc/missing.yml'' = None"
    by (simp_all add: f)
  show ?thesis
    using is_vault_magic_prefix [of vault_world "''/etc/secrets.yml''" "''$ANSIBLE_VAULT;1.1;AES256''"]
      is_vault_magic_prefix [of vault_world "''/etc/short.yml''" "''$ANSIBLE''"]
      is_vault_magic_prefix [of vault_world "''/etc/empty.yml''" "[]"]
      is_vault_magic_prefix [of vault_world "''/etc/plain.yml''" "''ansible_become_pass: x''"]
      is_vault_magic_prefix [of vault_world "''/etc/missing.yml''" "[]"]
      m1 m2 m3 m4 m5
    by simp
qed

section \<open>Saving and the snapshot\<close>

lemma save_cases:
  assumes "save_context w c filename = Some ctx"
  shows "save w c filename force do_backup = Inr (False, w) \<or>
         save w c filename force do_backup =
           Inr (save_config_dict w (save_target ctx) (MainConfigSchema_dump w ctx (config c)) do_backup)"
  using assms
  by (auto simp: save_def save_context_def save_target_def config_changed_def config_to_dict_def
      bindE_def Let_def split: option.splits if_splits)

lemma save_config_dict_backup_fails:
  "do_backup \<Longrightarrow> backup_file w filename = Inl e \<Longrightarrow>
     save_config_dict w filename d do_backup = (False, w)"
  by (simp add: save_config_dict_def)

lemma save_config_dict_write_fails:
  "(if do_backup then backup_file w filename = Inr w1 else w1 = w) \<Longrightarrow>
     write_file w1 filename (yaml_dump w d) = Inl e \<Longrightarrow>
     save_config_dict w filename d do_backup = (False, w1)"
  by (auto simp: save_config_dict_def split: if_splits)

lemma save_unchanged:
  assumes "filename = None \<or> filename = Some []" and "config_changed w c = Inr False"
  shows "save w c filename False do_backup = Inr (False, w)"
  using assms by (auto simp: save_def bindE_def Let_def)

text \<open>
  Claim C7. Without a file name and without \<^verbatim>\<open>force\<close>, \<^verbatim>\<open>save\<close> on an unchanged
  configuration returns False and leaves the host as it is. Whenever \<^verbatim>\<open>save\<close> has a
  context to dump with, it returns a boolean and does not raise; when the backup is
  asked for and fails, or the write fails, the boolean is False.
\<close>

theorem save_reports_failures:
  "((filename = None \<or> filename = Some []) \<and> config_changed w c = Inr False \<longrightarrow>
      save w c filename False do_backup = Inr (False, w)) \<and>
   (save_context w c filename = Some ctx \<longrightarrow>
      (\<exists>b w'. save w c filename force do_backup = Inr (b, w')) \<and>
      (do_backup \<and> backup_file w (save_target ctx) = Inl e \<longrightarrow>
         save w c filename force do_backup = Inr (False, w)) \<and>
      ((if do_backup then backup_file w (save_target ctx) = Inr w1 else w1 = w) \<and>
       write_file w1 (save_target ctx)
         (yaml_dump w (MainConfigSchema_dump w ctx (config c))) = Inl e \<longrightarrow>
         (\<exists>w'. save w c filename force do_backup = Inr (False, w'))))"
proof -
  have 1: "(filename = None \<or> filename = Some []) \<and> config_changed w c = Inr False \<longrightarrow>
      save w c filename False do_backup = Inr (False, w)"
    using save_unchanged by blast
  have 2: "\<exists>b w'. save w c filename force do_backup = Inr (b, w')"
    if "save_context w c filename = Some ctx"
    using save_cases [OF that, of force do_backup]
    by (cases "save_config_dict w (save_target ctx) (MainConfigSchema_dump w ctx (config c)) do_backup")
       auto
  have 3: "save w c filename force do_backup = Inr (False, w)"
    if "save_context w c filename = Some ctx" "do_backup" "backup_file w (save_target ctx) = Inl e"
    using save_cases [OF that(1), of force do_backup] save_config_dict_backup_fails [OF that(2,3)]
    by auto
  have 4: "\<exists>w'. save w c filename force do_backup = Inr (False, w')"
    if "save_context w c filename = Some ctx"
      "if do_backup then backup_file w (save_target ctx) = Inr w1 else w1 = w"
      "write_file w1 (save_target ctx) (yaml_dump w (MainConfigSchema_dump w ctx (config c))) = Inl e"
    using save_cases [OF that(1), of force do_backup] save_config_dict_write_fails [OF that(2,3)]
    by auto
  show ?thesis using 1 2 3 4 by blast
qed

lemma keys_dict_set: "fst ` set (dict_set d k v) = insert k (fst ` set d)"
proof (induction d)
  case Nil
  then show ?case by simp
next
  case (Cons a d)
  obtain k' v' where a: "a = (k', v')" by (cases a)
  show ?case
    using Cons by (cases "k' = k") (auto simp: a)
qed

lemma distinct_dict_set: "distinct (map fst d) \<Longrightarrow> distinct (map fst (dict_set d k v))"
proof (induction d)
  case Nil
  then show ?case by simp
next
  case (Cons a d)
  obtain k' v' where a: "a = (k', v')" by (cases a)
  show ?case
    using Cons keys_dict_set [of d k v] by (auto simp: a)
qed

lemma distinct_foldl_dict_set:
  "distinct (map fst acc) \<Longrightarrow> distinct (map fst (foldl (\<lambda>d (k, v). dict_set d k v) acc items))"
  by (induction items arbitrary: acc) (auto simp: distinct_dict_set)

lemma distinct_dict_of_items: "distinct (map fst (dict_of_items items))"
  by (simp add: dict_of_items_def distinct_foldl_dict_set)

lemma set_dict_set: "set (dict_set d k v) \<subseteq> insert (k, v) (set d)"
proof (induction d)
  case Nil
  then show ?case by simp
next
  case (Cons a d)
  obtain k' v' where a: "a = (k', v')" by (cases a)
  show ?case
    using Cons by (cases "k' = k") (auto simp: a)
qed

lemma set_foldl_dict_set:
  "set (foldl (\<lambda>d (k, v). dict_set d k v) acc items) \<subseteq> set acc \<union> set items"
proof (induction items arbitrary: acc)
  case Nil
  then show ?case by simp
next
  case (Cons a items)
  obtain k v where a: "a = (k, v)" by (cases a)
  show ?case
    using Cons [of "dict_set acc k v"] set_dict_set [of acc k v] by (auto simp: a)
qed

lemma set_dict_of_items: "set (dict_of_items items) \<subseteq> set items"
  using set_foldl_dict_set [of "[]" items] by (simp add: dict_of_items_def)

lemma py_eq_list_refl: "(\<And>x. x \<in> set xs \<Longrightarrow> py_eq x x) \<Longrightarrow> py_eq_list xs xs"
  by (induction xs) auto

lemma py_eq_items_subset:
  "distinct (map fst b) \<Longrightarrow> set a \<subseteq> set b \<Longrightarrow> \<forall>(k, v) \<in> set a. py_eq v v \<Longrightarrow> py_eq_items a b"
proof (induction a)
  case Nil
  then show ?case by simp
next
  case (Cons x a)
  obtain k v where x: "x = (k, v)" by (cases x)
  from Cons.prems(1,2) have "map_of b k = Some v" by (simp add: x)
  moreover have "py_eq v v" using Cons.prems(3) by (simp add: x)
  moreover have "py_eq_items a b" using Cons.IH Cons.prems by simp
  ultimately show ?case by (simp add: x)
qed

lemma py_eq_dict_refl:
  "distinct (map fst d) \<Longrightarrow> (\<And>k v. (k, v) \<in> set d \<Longrightarrow> py_eq v v) \<Longrightarrow> py_eq (YDict d) (YDict d)"
  using py_eq_items_subset [of d d] by auto

lemma py_eq_String_serialize_any: "py_eq (String_serialize_any v) (String_serialize_any v)"
  by (cases v) simp_all

lemma py_eq_Dict_serialize: "py_eq (Dict_serialize env) (Dict_serialize env)"
  unfolding Dict_serialize_def
proof (rule py_eq_dict_refl)
  show "distinct (map fst (dict_of_items (map (\<lambda>(k, v). (YStr k, String_serialize_any v)) env)))"
    by (rule distinct_dict_of_items)
next
  fix k v
  assume "(k, v) \<in> set (dict_of_items (map (\<lambda>(k, v). (YStr k, String_serialize_any v)) env))"
  then have "(k, v) \<in> set (map (\<lambda>(k, v). (YStr k, String_serialize_any v)) env)"
    using set_dict_of_items by blast
  then show "py_eq v v" by (auto simp: py_eq_String_serialize_any)
qed

lemma py_eq_PathField_serialize: "py_eq (PathField_serialize ctx po) (PathField_serialize ctx po)"
  by (cases po) (simp_all add: PathField_serialize_None PathField_serialize_Some)

lemma py_eq_VaultIdField_serialize:
  "py_eq (VaultIdField_serialize w ctx v) (VaultIdField_serialize w ctx v)"
  by (simp add: VaultIdField_serialize_def split: sum.splits)

lemma py_eq_String_serialize: "py_eq (String_serialize so) (String_serialize so)"
  by (cases so) (simp_all add: String_serialize_def)

lemma py_eq_path_list:
  "py_eq_list (map (\<lambda>p. PathField_serialize ctx (Some p)) ps)
              (map (\<lambda>p. PathField_serialize ctx (Some p)) ps)"
  by (auto intro!: py_eq_list_refl simp: py_eq_PathField_serialize)

lemma py_eq_vault_list:
  "py_eq_list (map (VaultIdField_serialize w ctx) vs) (map (VaultIdField_serialize w ctx) vs)"
  by (auto intro!: py_eq_list_refl simp: py_eq_VaultIdField_serialize)

lemma py_eq_fields:
  "(k, v) \<in> set (AnsibleConfigSchema_fields w ctx a) \<Longrightarrow> py_eq v v"
  by (auto simp: AnsibleConfigSchema_fields_def py_eq_PathField_serialize py_eq_path_list
      py_eq_vault_list py_eq_String_serialize py_eq_Dict_serialize)

lemma distinct_dump: "distinct (map fst (AnsibleConfigSchema_dump w ctx a))"
  unfolding AnsibleConfigSchema_dump_def remove_none_values_def
  using distinct_AnsibleConfigSchema_fields [of w ctx a] by (rule distinct_map_filter)

lemma py_eq_ansible_dump:
  "py_eq (YDict (AnsibleConfigSchema_dump w ctx a)) (YDict (AnsibleConfigSchema_dump w ctx a))"
proof (rule py_eq_dict_refl [OF distinct_dump])
  fix k v
  assume "(k, v) \<in> set (AnsibleConfigSchema_dump w ctx a)"
  then have "(k, v) \<in> set (AnsibleConfigSchema_fields w ctx a)"
    by (simp add: AnsibleConfigSchema_dump_def remove_none_values_def)
  then show "py_eq v v" by (rule py_eq_fields)
qed

lemma MainConfigSchema_dump_eq:
  "MainConfigSchema_dump w ctx m
     = YDict [(YStr ''ansible'', YDict (AnsibleConfigSchema_dump w ctx (ansible m)))]"
  by (simp add: MainConfigSchema_dump_def remove_none_values_def)

lemma py_eq_main_dump: "py_eq (MainConfigSchema_dump w ctx m) (MainConfigSchema_dump w ctx m)"
  using py_eq_ansible_dump [of w ctx "ansible m"]
  by (simp add: MainConfigSchema_dump_eq)

lemma config_changed_snapshot:
  assumes "config_to_dict w c = Inr (initial_config_dict c)"
  shows "config_changed w c = Inr False"
proof (cases "config_context (config c)")
  case None
  with assms show ?thesis by (simp add: config_to_dict_def)
next
  case (Some cc)
  with assms have e: "MainConfigSchema_dump w
        \<lparr>ConfigContext.config_file = ConfigContext.config_file cc, create_model = True,
         serialize_relative_paths = False\<rparr> (config c) = initial_config_dict c"
    by (simp add: config_to_dict_def)
  have "py_eq (initial_config_dict c) (initial_config_dict c)"
    unfolding e [symmetric] by (rule py_eq_main_dump)
  then show ?thesis
    using assms by (simp add: config_changed_def bindE_def)
qed

theorem save_reports_failures_witness:
  "config_changed denying_world plain_configurator = Inr False \<and>
   save denying_world plain_configurator None False True = Inr (False, denying_world) \<and>
   save_context denying_world plain_configurator None = Some example_context \<and>
   backup_file denying_world (save_target example_context) = Inl OSError \<and>
   save denying_world plain_configurator None True True = Inr (False, denying_world) \<and>
   write_file denying_world (save_target example_context)
     (yaml_dump denying_world
        (MainConfigSchema_dump denying_world example_context (config plain_configurator)))
     = Inl OSError \<and>
   (\<exists>w'. save denying_world plain_configurator None True False = Inr (False, w'))"
proof -
  have unchanged: "config_changed denying_world plain_configurator = Inr False"
    by (rule config_changed_snapshot)
       (simp add: config_to_dict_def plain_configurator_def example_context_def)
  have ctx: "save_context denying_world plain_configurator None = Some example_context"
    by (simp add: save_context_def plain_configurator_def example_context_def)
  have tgt: "save_target example_context = ''/etc/config.yml''"
    by (simp add: save_target_def example_context_def str_path_def)
  have bk: "backup_file denying_world ''/etc/config.yml'' = Inl OSError"
    by (simp add: backup_file_def denying_world_def example_world_def os_path_exists_def
        os_rename_def)
  have wr: "write_file denying_world ''/etc/config.yml'' content = Inl OSError" for content
    by (simp add: write_file_def denying_world_def example_world_def)
  show ?thesis
    using unchanged ctx bk wr
      save_reports_failures [where filename = None and w = denying_world
        and c = plain_configurator and do_backup = True and ctx = example_context
        and force = True and e = OSError and ?w1.0 = denying_world]
      save_reports_failures [where filename = None and w = denying_world
        and c = plain_configurator and do_backup = False and ctx = example_context
        and force = True and e = OSError and ?w1.0 = denying_world]
    by (simp add: tgt)
qed

section \<open>Environment variables\<close>

lemma deserialize_fields:
  assumes "AnsibleConfigSchema_deserialize w ctx v = Inr d"
  shows "\<exists>data. v = YDict data \<and>
    load_field data ''config_file'' (Field_deserialize True (PathField_deserialize w ctx))
      = Inr (d_config_file d) \<and>
    load_field data ''inventories''
      (Field_deserialize_required (List_deserialize (PathField_deserialize w ctx)))
      = Inr (d_inventories d) \<and>
    load_field data ''vault_ids''
      (Field_deserialize_required (List_deserialize (VaultIdField_deserialize w ctx)))
      = Inr (d_vault_ids d) \<and>
    load_field data ''vault_password_files''
      (Field_deserialize_required (List_deserialize (PathField_deserialize w ctx)))
      = Inr (d_vault_password_files d) \<and>
    load_field data ''user_scripts''
      (Field_deserialize_required (List_deserialize (PathField_deserialize w ctx)))
      = Inr (d_user_scripts d) \<and>
    load_field data ''vars_files''
      (Field_deserialize_required (List_deserialize (PathField_deserialize w ctx)))
      = Inr (d_vars_files d) \<and>
    load_field data ''vault_files''
      (Field_deserialize_required (List_deserialize (PathField_deserialize w ctx)))
      = Inr (d_vault_files d) \<and>
    load_field data ''private_key_file'' (Field_deserialize True (PathField_deserialize w ctx))
      = Inr (d_private_key_file d) \<and>
    load_field data ''log_path'' (Field_deserialize True (PathField_deserialize w ctx))
      = Inr (d_log_path d) \<and>
    load_field data ''env_vars'' (Field_deserialize_required Dict_deserialize)
      = Inr (d_env_vars d)"
proof (cases v)
  case (YDict data)
  show ?thesis
    using assms unfolding YDict AnsibleConfigSchema_deserialize_def yval.case bindE_def
    by (auto split: sum.splits if_splits)
qed (use assms in \<open>simp_all add: AnsibleConfigSchema_deserialize_def\<close>)

lemma traverse_Inr:
  "traverse f xs = Inr ys \<Longrightarrow> list_all2 (\<lambda>x y. f x = Inr y) xs ys"
proof (induction xs arbitrary: ys)
  case Nil
  then show ?case by simp
next
  case (Cons x xs)
  then show ?case by (auto simp: bindE_def split: sum.splits)
qed

lemma traverse_all:
  assumes "traverse f xs = Inr ys" and "\<And>x y. f x = Inr y \<Longrightarrow> P y"
  shows "list_all P ys"
  using traverse_Inr [OF assms(1)] assms(2)
  by (induction xs ys rule: list_all2_induct) auto

lemma Dict_deserialize_strings:
  assumes "Dict_deserialize v = Inr env"
  shows "list_all (\<lambda>(k, x). is_PStr x) env \<and> distinct (map fst env)"
proof (cases v)
  case (YDict kvs)
  with assms obtain items where
    tr: "traverse (\<lambda>(k, v).
              bindE (Field_deserialize_required String_deserialize k) (\<lambda>k'.
              bindE (Field_deserialize_required String_deserialize v) (\<lambda>v'. Inr (k', PStr v')))) kvs
          = Inr items" and env: "env = dict_of_items items"
    by (auto simp: bindE_def split: sum.splits)
  have "list_all (\<lambda>(k, x). is_PStr x) items"
    by (rule traverse_all [OF tr]) (auto simp: bindE_def split: sum.splits)
  then have "list_all (\<lambda>(k, x). is_PStr x) env"
    using set_dict_of_items [of items] unfolding env list_all_iff by blast
  then show ?thesis by (simp add: env distinct_dict_of_items)
qed (use assms in simp_all)

lemma load_field_cases:
  assumes "load_field data name deser = Inr r"
  shows "r = None \<or> (\<exists>v x. deser v = Inr x \<and> r = Some x)"
  using assms by (auto simp: load_field_def bindE_def split: option.splits sum.splits)

lemma load_env_vars_strings:
  assumes "load_field data name (Field_deserialize_required Dict_deserialize) = Inr r"
  shows "case r of None \<Rightarrow> True
         | Some env \<Rightarrow> list_all (\<lambda>(k, x). is_PStr x) env \<and> distinct (map fst env)"
  using load_field_cases [OF assms] Dict_deserialize_strings
  by (auto simp: Field_deserialize_required_def split: if_splits)

lemma loaded_env_vars_strings:
  assumes "AnsibleConfigSchema_load w ctx v = Inr (Model a)"
  shows "list_all (\<lambda>(k, x). is_PStr x) (env_vars a) \<and> distinct (map fst (env_vars a))"
proof -
  from assms obtain d where d: "AnsibleConfigSchema_deserialize w ctx v = Inr d"
    and a: "a = AnsibleConfig_of_data d"
    by (auto simp: AnsibleConfigSchema_load_def bindE_def split: sum.splits if_splits)
  from deserialize_fields [OF d] obtain data where
    "load_field data ''env_vars'' (Field_deserialize_required Dict_deserialize)
       = Inr (d_env_vars d)"
    by blast
  from load_env_vars_strings [OF this] show ?thesis
    by (cases "d_env_vars d") (simp_all add: a AnsibleConfig_of_data_def)
qed

lemma merged_env_vars:
  "MainConfig_merge base overlay am = Inr (r, am') \<Longrightarrow>
     env_vars (ansible r) = env_vars (ansible overlay)"
  unfolding MainConfig_merge_eq AnsibleConfig_merge_eq bindE_def
  by (auto simp: merged_value_def merge_other_def)

lemma env_vars_set_ansible_env_vars:
  "env_vars (ansible (config (set_ansible_env_vars c value)))
     = dict_of_items (map (\<lambda>(k, v). (py_str k, v)) value)"
  by (simp add: set_ansible_env_vars_def update_ansible_def)

lemma keys_foldl_dict_set:
  "fst ` set (foldl (\<lambda>d (k, v). dict_set d k v) acc items) = fst ` set acc \<union> fst ` set items"
proof (induction items arbitrary: acc)
  case Nil
  then show ?case by simp
next
  case (Cons a items)
  obtain k v where a: "a = (k, v)" by (cases a)
  show ?case
    using Cons [of "dict_set acc k v"] keys_dict_set [of acc k v] by (auto simp: a)
qed

lemma keys_dict_of_items: "fst ` set (dict_of_items items) = fst ` set items"
  using keys_foldl_dict_set [of "[]" items] by (simp add: dict_of_items_def)

text \<open>
  Claim C9, as the code has it. The keys of \<^verbatim>\<open>env_vars\<close> are strings by the type of the
  field. Loading gives string values; merging takes the overlay's \<^verbatim>\<open>env_vars\<close>; the setter
  makes the keys the \<^verbatim>\<open>str\<close> of the given keys and stores the given values unchanged, so
  that its values are strings when the given values are.
\<close>

theorem env_vars_strings:
  "(AnsibleConfigSchema_load w ctx v = Inr (Model a) \<longrightarrow>
      list_all (\<lambda>(k, x). is_PStr x) (env_vars a)) \<and>
   (MainConfig_merge base overlay am = Inr (r, am') \<longrightarrow>
      env_vars (ansible r) = env_vars (ansible overlay)) \<and>
   fst ` set (env_vars (ansible (config (set_ansible_env_vars c given))))
     = py_str ` fst ` set given \<and>
   snd ` set (env_vars (ansible (config (set_ansible_env_vars c given)))) \<subseteq> snd ` set given \<and>
   (list_all (\<lambda>(k, x). is_PStr x) given \<longrightarrow>
      list_all (\<lambda>(k, x). is_PStr x) (env_vars (ansible (config (set_ansible_env_vars c given)))))"
proof -
  have sub: "set (dict_of_items (map (\<lambda>(k, v). (py_str k, v)) given))
               \<subseteq> set (map (\<lambda>(k, v). (py_str k, v)) given)"
    by (rule set_dict_of_items)
  have keys: "fst ` set (dict_of_items (map (\<lambda>(k, v). (py_str k, v)) given))
                = py_str ` fst ` set given"
    unfolding keys_dict_of_items by force
  have vals: "snd ` set (dict_of_items (map (\<lambda>(k, v). (py_str k, v)) given)) \<subseteq> snd ` set given"
    using sub by force
  have strs: "list_all (\<lambda>(k, x). is_PStr x) (dict_of_items (map (\<lambda>(k, v). (py_str k, v)) given))"
    if "list_all (\<lambda>(k, x). is_PStr x) given"
    using that sub unfolding list_all_iff by force
  show ?thesis
    unfolding env_vars_set_ansible_env_vars
    using loaded_env_vars_strings [of w ctx v a] merged_env_vars [of base overlay am r am']
      keys vals strs
    by blast
qed

lemma str_int_one: "str_int 1 = ''1''"
  by code_simp

theorem env_vars_strings_witness:
  "AnsibleConfigSchema_load example_world example_context
     (YDict [(YStr ''env_vars'', YDict [(YStr ''A'', YStr ''1'')])])
     = Inr (Model (AnsibleConfig_default\<lparr>env_vars := [(''A'', PStr ''1'')]\<rparr>)) \<and>
   list_all (\<lambda>(k, x). is_PStr x) (env_vars (AnsibleConfig_default\<lparr>env_vars := [(''A'', PStr ''1'')]\<rparr>)) \<and>
   MainConfig_merge MainConfig_default
     (MainConfig_default\<lparr>ansible := AnsibleConfig_default\<lparr>env_vars := [(''A'', PStr ''1'')]\<rparr>\<rparr>)
     \<lparr>merge_options = [], replace_vars = {}, cur_attr_name = [], attr_name_stack = []\<rparr>
     = Inr (MainConfig_default\<lparr>ansible := AnsibleConfig_default\<lparr>env_vars := [(''A'', PStr ''1'')]\<rparr>\<rparr>,
            \<lparr>merge_options = [], replace_vars = {}, cur_attr_name = [], attr_name_stack = []\<rparr>) \<and>
   list_all (\<lambda>(k, x). is_PStr x) [(PInt 1, PStr ''x'')] \<and>
   env_vars (ansible (config (set_ansible_env_vars plain_configurator [(PInt 1, PStr ''x'')])))
     = [(''1'', PStr ''x'')] \<and>
   list_all (\<lambda>(k, x). is_PStr x)
     (env_vars (ansible (config (set_ansible_env_vars plain_configurator [(PInt 1, PStr ''x'')]))))"
proof -
  have ld: "AnsibleConfigSchema_load example_world example_context
     (YDict [(YStr ''env_vars'', YDict [(YStr ''A'', YStr ''1'')])])
     = Inr (Model (AnsibleConfig_default\<lparr>env_vars := [(''A'', PStr ''1'')]\<rparr>))"
    by (simp add: AnsibleConfigSchema_load_def AnsibleConfigSchema_deserialize_def load_field_def
        bindE_def Field_deserialize_required_def unknown_field_def dict_of_items_def
        AnsibleConfigSchema_names_def AnsibleConfig_of_data_def AnsibleConfig_default_def
        example_flags)
  have mg: "MainConfig_merge MainConfig_default
     (MainConfig_default\<lparr>ansible := AnsibleConfig_default\<lparr>env_vars := [(''A'', PStr ''1'')]\<rparr>\<rparr>)
     \<lparr>merge_options = [], replace_vars = {}, cur_attr_name = [], attr_name_stack = []\<rparr>
     = Inr (MainConfig_default\<lparr>ansible := AnsibleConfig_default\<lparr>env_vars := [(''A'', PStr ''1'')]\<rparr>\<rparr>,
            \<lparr>merge_options = [], replace_vars = {}, cur_attr_name = [], attr_name_stack = []\<rparr>)"
    unfolding MainConfig_merge_eq AnsibleConfig_merge_eq
    by (simp add: bindE_def merged_value_def merge_sequences_def merge_other_def
        MainConfig_default_def AnsibleConfig_default_def)
  have st: "env_vars (ansible (config (set_ansible_env_vars plain_configurator [(PInt 1, PStr ''x'')])))
     = [(''1'', PStr ''x'')]"
    by (simp add: env_vars_set_ansible_env_vars dict_of_items_def str_int_one)
  have ok: "list_all (\<lambda>(k, x). is_PStr x) [(PInt 1, PStr ''x'')]"
    by simp
  show ?thesis
    using ld mg st ok
      env_vars_strings [where w = example_world and ctx = example_context
        and v = "YDict [(YStr ''env_vars'', YDict [(YStr ''A'', YStr ''1'')])]"
        and a = "AnsibleConfig_default\<lparr>env_vars := [(''A'', PStr ''1'')]\<rparr>"
        and base = MainConfig_default
        and overlay = "MainConfig_default\<lparr>ansible := AnsibleConfig_default\<lparr>env_vars := [(''A'', PStr ''1'')]\<rparr>\<rparr>"
        and am = "\<lparr>merge_options = [], replace_vars = {}, cur_attr_name = [], attr_name_stack = []\<rparr>"
        and c = plain_configurator and given = "[(PInt 1, PStr ''x'')]"]
    by simp
qed

text \<open>
  Claim C9 as stated fails: the setter stores the integer it is given.
\<close>

theorem env_vars_setter_counterexample:
  "env_vars (ansible (config (set_ansible_env_vars plain_configurator [(PStr ''A'', PInt 1)])))
     = [(''A'', PInt 1)] \<and>
   \<not> is_PStr (PInt 1) \<and>
   \<not> list_all (\<lambda>(k, x). is_PStr x)
       (env_vars (ansible (config (set_ansible_env_vars plain_configurator [(PStr ''A'', PInt 1)]))))"
  by (simp add: env_vars_set_ansible_env_vars dict_of_items_def)

end
